theory Spec2Isabelle
  imports Main "HOL-Library.Word"
begin

unbundle bit_operations_syntax

section \<open>Windows scalar types and macros\<close>

text \<open>
  \<^verbatim>\<open>WORD\<close> is an unsigned 16-bit and \<^verbatim>\<open>DWORD\<close> an unsigned 32-bit integer.
  \<^verbatim>\<open>BOOL\<close> is a C \<^verbatim>\<open>int\<close>: \<^verbatim>\<open>FALSE\<close> is 0, \<^verbatim>\<open>TRUE\<close> is 1, and a
  condition holds for every nonzero value. \<^verbatim>\<open>HRESULT\<close> is a signed 32-bit value
  and \<^verbatim>\<open>FAILED(hr)\<close> is \<^verbatim>\<open>hr < 0\<close>. A module handle is a number, \<^verbatim>\<open>NULL\<close>
  being 0. \<^verbatim>\<open>String\<close> and \<^verbatim>\<open>std::string\<close> are character lists.
\<close>

type_synonym BYTE = "8 word"
type_synonym WORD = "16 word"
type_synonym DWORD = "32 word"
type_synonym BOOL = "32 word"
type_synonym HRESULT = "32 word"
type_synonym HINSTANCE = nat

definition FALSE :: BOOL where
  "FALSE = 0"

definition TRUE :: BOOL where
  "TRUE = 1"

definition FAILED :: "HRESULT \<Rightarrow> bool" where
  "FAILED hr = (sint hr < 0)"

text \<open>
  \<^verbatim>\<open>#define LOWORD(l) ((WORD)(((DWORD_PTR)(l)) & 0xffff))\<close> and
  \<^verbatim>\<open>#define HIWORD(l) ((WORD)((((DWORD_PTR)(l)) >> 16) & 0xffff))\<close>, from the
  platform headers.
\<close>

definition LOWORD :: "DWORD \<Rightarrow> WORD" where
  "LOWORD l = ucast (l AND 0xffff)"

definition HIWORD :: "DWORD \<Rightarrow> WORD" where
  "HIWORD l = ucast (drop_bit 16 l AND 0xffff)"

definition MAX_PATH :: nat where
  "MAX_PATH = 260"

section \<open>Formatted output\<close>

text \<open>
  The conversions of \<^verbatim>\<open>printf\<close> that the two files use, on the non-negative
  values they are applied to (a \<^verbatim>\<open>WORD\<close> or a byte, promoted to \<^verbatim>\<open>int\<close>):
  \<^verbatim>\<open>%d\<close> is the decimal numeral without padding; \<^verbatim>\<open>%04x\<close> and \<^verbatim>\<open>%02x\<close> are the
  lowercase hexadecimal numeral, padded on the left with zeros to 4 and 2
  characters; \<^verbatim>\<open>%4.4X\<close> is the uppercase hexadecimal numeral with at least 4
  digits in a field of at least 4 characters.
\<close>

definition digit_char :: "bool \<Rightarrow> nat \<Rightarrow> char" where
  "digit_char upper d =
     (if upper then ''0123456789ABCDEF'' ! d else ''0123456789abcdef'' ! d)"

function digits_of :: "nat \<Rightarrow> bool \<Rightarrow> nat \<Rightarrow> string" where
  "digits_of base upper n =
     (if base < 2 \<or> n < base then [digit_char upper n]
      else digits_of base upper (n div base) @ [digit_char upper (n mod base)])"
  by pat_completeness auto
termination
  by (relation "measure (\<lambda>(base, upper, n). n)") auto

declare digits_of.simps [simp del]

definition zero_pad :: "nat \<Rightarrow> string \<Rightarrow> string" where
  "zero_pad width s = replicate (width - length s) (CHR ''0'') @ s"

definition fmt_d :: "nat \<Rightarrow> string" where
  "fmt_d n = digits_of 10 False n"

definition fmt_04x :: "nat \<Rightarrow> string" where
  "fmt_04x n = zero_pad 4 (digits_of 16 False n)"

definition fmt_02x :: "nat \<Rightarrow> string" where
  "fmt_02x n = zero_pad 2 (digits_of 16 False n)"

definition fmt_4_4X :: "nat \<Rightarrow> string" where
  "fmt_4_4X n = zero_pad 4 (digits_of 16 True n)"

text \<open>
  \<^verbatim>\<open>StringCchPrintf(dest, cchDest, ...)\<close> and \<^verbatim>\<open>StringCchCopy\<close> store at most
  \<^verbatim>\<open>cchDest - 1\<close> characters and the terminator: a longer result is truncated.
  Both callers ignore the status they return. The argument \<open>s\<close> is the fully
  formatted text.
\<close>

definition StringCchPrintf :: "nat \<Rightarrow> string \<Rightarrow> string" where
  "StringCchPrintf cchDest s = take (cchDest - 1) s"

definition StringCchCopy :: "nat \<Rightarrow> string \<Rightarrow> string" where
  "StringCchCopy cchDest s = take (cchDest - 1) s"

text \<open>The value a decimal or hexadecimal numeral denotes, to read a rendering back.\<close>

definition digit_value :: "char \<Rightarrow> nat" where
  "digit_value c =
     (let k = of_char c :: nat in
      if 48 \<le> k \<and> k \<le> 57 then k - 48
      else if 97 \<le> k \<and> k \<le> 102 then k - 87
      else if 65 \<le> k \<and> k \<le> 70 then k - 55
      else 0)"

definition numeral_value :: "nat \<Rightarrow> string \<Rightarrow> nat" where
  "numeral_value base s = foldl (\<lambda>acc c. acc * base + digit_value c) 0 s"

text \<open>
  A decimal numeral of \<open>n\<close>: a non-empty string of the digits 0 to 9, without a
  leading zero unless it is the one digit 0, that denotes \<open>n\<close>.
\<close>

definition is_decimal_digit :: "char \<Rightarrow> bool" where
  "is_decimal_digit c = (let k = of_char c :: nat in 48 \<le> k \<and> k \<le> 57)"

definition decimal_numeral :: "string \<Rightarrow> nat \<Rightarrow> bool" where
  "decimal_numeral s n =
     (s \<noteq> [] \<and> list_all is_decimal_digit s \<and> (length s = 1 \<or> hd s \<noteq> CHR ''0'') \<and>
      numeral_value 10 s = n)"

section \<open>version.cpp: the structures\<close>

text \<open>\<^verbatim>\<open>VS_FIXEDFILEINFO\<close>, the fixed part of a version resource: thirteen \<^verbatim>\<open>DWORD\<close>s.\<close>

record VS_FIXEDFILEINFO =
  dwSignature :: DWORD
  dwStrucVersion :: DWORD
  dwFileVersionMS :: DWORD
  dwFileVersionLS :: DWORD
  dwProductVersionMS :: DWORD
  dwProductVersionLS :: DWORD
  dwFileFlagsMask :: DWORD
  dwFileFlags :: DWORD
  dwFileOS :: DWORD
  dwFileType :: DWORD
  dwFileSubtype :: DWORD
  dwFileDateMS :: DWORD
  dwFileDateLS :: DWORD

definition zero_VS_FIXEDFILEINFO :: VS_FIXEDFILEINFO where
  "zero_VS_FIXEDFILEINFO =
     \<lparr>dwSignature = 0, dwStrucVersion = 0, dwFileVersionMS = 0, dwFileVersionLS = 0,
      dwProductVersionMS = 0, dwProductVersionLS = 0, dwFileFlagsMask = 0,
      dwFileFlags = 0, dwFileOS = 0, dwFileType = 0, dwFileSubtype = 0,
      dwFileDateMS = 0, dwFileDateLS = 0\<rparr>"

text \<open>\<^verbatim>\<open>DLLVERSIONINFO\<close>, what \<^verbatim>\<open>DllGetVersion\<close> fills: five \<^verbatim>\<open>DWORD\<close>s, 20 bytes.\<close>

record DLLVERSIONINFO =
  cbSize :: DWORD
  dwMajorVersion :: DWORD
  dwMinorVersion :: DWORD
  dwBuildNumber :: DWORD
  dwPlatformID :: DWORD

definition zero_DLLVERSIONINFO :: DLLVERSIONINFO where
  "zero_DLLVERSIONINFO =
     \<lparr>cbSize = 0, dwMajorVersion = 0, dwMinorVersion = 0, dwBuildNumber = 0,
      dwPlatformID = 0\<rparr>"

definition sizeof_DLLVERSIONINFO :: DWORD where
  "sizeof_DLLVERSIONINFO = 20"

text \<open>\<^verbatim>\<open>struct LANGUAGEANDCODEPAGE\<close> (version.cpp, lines 19-23).\<close>

record LANGUAGEANDCODEPAGE =
  wLanguage :: WORD
  wCodePage :: WORD

section \<open>version.cpp: the operating system the class calls\<close>

text \<open>
  The contents of a loaded version-information block, as \<^verbatim>\<open>VerQueryValue\<close>
  presents it to this class. Three kinds of sub-block are queried:
  \<^item> the root: the fixed file information, when the query succeeds;
  \<^item> the translation table under \<^verbatim>\<open>VarFileInfo\<close>: the return code of the query
    and the array of language/codepage entries that the two out-parameters
    (pointer and byte length) delimit after the call,
    \<^verbatim>\<open>cbTranslate / sizeof(LANGUAGEANDCODEPAGE)\<close> entries long;
  \<^item> any other selector: the zero-terminated string stored under it, when the
    query succeeds. The block decides which selectors exist.
\<close>

record ver_block =
  vq_root :: "VS_FIXEDFILEINFO option"
  vq_translation :: "bool \<times> LANGUAGEANDCODEPAGE list"
  vq_string :: "string \<Rightarrow> string option"

text \<open>
  \<^verbatim>\<open>m_pVffInfo\<close>: null, or the \<^verbatim>\<open>new BYTE[dwVerInfoSize]\<close> buffer before
  \<^verbatim>\<open>GetFileVersionInfo\<close> has filled it, or the buffer holding a loaded block.
  Allocation is taken to succeed.
\<close>

datatype ver_buffer = NullBuffer | Allocated DWORD | Loaded ver_block

text \<open>
  \<^verbatim>\<open>DllGetVersion\<close>, the function a module may export: from the structure
  passed in to the \<^verbatim>\<open>HRESULT\<close> and the structure it leaves.
\<close>

type_synonym DLLGETVERSIONPROC = "DLLVERSIONINFO \<Rightarrow> HRESULT \<times> DLLVERSIONINFO"

record os_world =
  os_GetModuleFileName :: "HINSTANCE \<Rightarrow> string"
  os_GetFileVersionInfoSize :: "string \<Rightarrow> DWORD"
  os_GetFileVersionInfo :: "string \<Rightarrow> DWORD \<Rightarrow> ver_block option"
  os_LoadLibrary :: "string \<Rightarrow> HINSTANCE"
  os_GetProcAddress :: "HINSTANCE \<Rightarrow> string \<Rightarrow> DLLGETVERSIONPROC option"

text \<open>The calls made to the operating system, recorded in the order they are made.\<close>

datatype os_call =
    Call_GetModuleFileName HINSTANCE
  | Call_GetFileVersionInfoSize string
  | Call_GetFileVersionInfo string DWORD
  | Call_VerQueryValue string
  | Call_LoadLibrary string
  | Call_GetProcAddress HINSTANCE string
  | Call_DllGetVersion
  | Call_FreeLibrary HINSTANCE

text \<open>Calls that load and that release a module.\<close>

fun is_FreeLibrary :: "os_call \<Rightarrow> bool" where
  "is_FreeLibrary (Call_FreeLibrary h) = True"
| "is_FreeLibrary _ = False"

fun is_LoadLibrary :: "os_call \<Rightarrow> bool" where
  "is_LoadLibrary (Call_LoadLibrary f) = True"
| "is_LoadLibrary _ = False"

text \<open>
  Values the code reads without having written them: the local
  \<^verbatim>\<open>WORD codepage\<close> of \<^verbatim>\<open>QueryStrings\<close> (line 326), which
  \<^verbatim>\<open>GetCodepageForLanguage\<close> assigns only on a match, and what lies at
  \<^verbatim>\<open>lpTranslate[0]\<close> (lines 345, 348) when the translation query succeeds with
  an array of no entry.
\<close>

record indeterminate =
  ind_codepage :: WORD
  ind_lpTranslate0 :: LANGUAGEANDCODEPAGE

section \<open>version.cpp: the class\<close>

text \<open>
  The data members of \<^verbatim>\<open>CVersionInfo\<close>. The class declaration (version.h) is
  not among the sources; the members are those the member functions name.
  \<open>os_calls\<close> is not a member: it is the record of the operating-system calls
  made on behalf of the object.
\<close>

record CVersionInfo =
  m_FixedFileInfo :: VS_FIXEDFILEINFO
  m_pVffInfo :: ver_buffer
  m_bVersionOnly :: BOOL
  m_bDllVersion :: BOOL
  m_wLanguage :: WORD
  m_bVersionFound :: BOOL
  m_strFileName :: string
  m_strLanguage :: string
  m_strCodepage :: string
  m_strCompanyName :: string
  m_strFileDescription :: string
  m_strFileVersion :: string
  m_strInternalName :: string
  m_strLegalCopyright :: string
  m_strOriginalFilename :: string
  m_strProductName :: string
  m_strProductVersion :: string
  m_strComments :: string
  m_strSpecialBuild :: string
  m_strPrivateBuild :: string
  m_dvi :: DLLVERSIONINFO
  os_calls :: "os_call list"

subsection \<open>Getters\<close>

definition GetFileVersion :: "CVersionInfo \<Rightarrow> string" where
  "GetFileVersion this = m_strFileVersion this"

definition GetPrivateBuild :: "CVersionInfo \<Rightarrow> string" where
  "GetPrivateBuild this = m_strPrivateBuild this"

definition GetSpecialBuild :: "CVersionInfo \<Rightarrow> string" where
  "GetSpecialBuild this = m_strSpecialBuild this"

definition GetCompanyName :: "CVersionInfo \<Rightarrow> string" where
  "GetCompanyName this = m_strCompanyName this"

definition GetFileDescription :: "CVersionInfo \<Rightarrow> string" where
  "GetFileDescription this = m_strFileDescription this"

definition GetInternalName :: "CVersionInfo \<Rightarrow> string" where
  "GetInternalName this = m_strInternalName this"

definition GetLegalCopyright :: "CVersionInfo \<Rightarrow> string" where
  "GetLegalCopyright this = m_strLegalCopyright this"

definition GetOriginalFilename :: "CVersionInfo \<Rightarrow> string" where
  "GetOriginalFilename this = m_strOriginalFilename this"

definition GetProductVersion :: "CVersionInfo \<Rightarrow> string" where
  "GetProductVersion this = m_strProductVersion this"

definition GetComments :: "CVersionInfo \<Rightarrow> string" where
  "GetComments this = m_strComments this"

text \<open>
  Modelled from the spec: \<^verbatim>\<open>GetProductName\<close> is not defined in version.cpp
  (only the member \<^verbatim>\<open>m_strProductName\<close> it would return is written there,
  line 358). The specification counts eleven string fields, product name among
  them, and says that the getters are pure projections of the computed state.
\<close>

definition GetProductName :: "CVersionInfo \<Rightarrow> string" where
  "GetProductName this = m_strProductName this"

text \<open>The eleven string getters, in the order \<^verbatim>\<open>QueryStrings\<close> fills their members.\<close>

definition string_getters :: "CVersionInfo \<Rightarrow> string list" where
  "string_getters this =
     [GetCompanyName this, GetFileDescription this, GetFileVersion this,
      GetInternalName this, GetLegalCopyright this, GetOriginalFilename this,
      GetProductName this, GetProductVersion this, GetComments this,
      GetSpecialBuild this, GetPrivateBuild this]"

text \<open>\<^verbatim>\<open>MakeVersionString\<close> (lines 199-214); \<^verbatim>\<open>countof(ver) - 1\<close> is 49.\<close>

definition MakeVersionString :: "DWORD \<Rightarrow> DWORD \<Rightarrow> string" where
  "MakeVersionString hi lo =
     (if LOWORD lo = 0 then
        StringCchPrintf 49
          (fmt_d (unat (HIWORD hi)) @ ''.'' @ fmt_d (unat (LOWORD hi)) @ ''.'' @
           fmt_d (unat (HIWORD lo)))
      else
        StringCchPrintf 49
          (fmt_d (unat (HIWORD hi)) @ ''.'' @ fmt_d (unat (LOWORD hi)) @ ''.'' @
           fmt_d (unat (HIWORD lo)) @ ''.'' @ fmt_d (unat (LOWORD lo))))"

definition GetFixedProductVersion :: "CVersionInfo \<Rightarrow> string" where
  "GetFixedProductVersion this =
     (if m_bVersionFound this = 0 then []
      else MakeVersionString (dwProductVersionMS (m_FixedFileInfo this))
             (dwProductVersionLS (m_FixedFileInfo this)))"

definition GetFixedFileVersion :: "CVersionInfo \<Rightarrow> string" where
  "GetFixedFileVersion this =
     (if m_bVersionFound this = 0 then []
      else MakeVersionString (dwFileVersionMS (m_FixedFileInfo this))
             (dwFileVersionLS (m_FixedFileInfo this)))"

text \<open>
  \<^verbatim>\<open>GetFixedFileVersion(unsigned& versionMS, unsigned& versionLS)\<close> (lines
  249-258): the two references are passed in with the caller's values and
  returned, after the \<^verbatim>\<open>BOOL\<close>, with the values they hold on return.
\<close>

definition GetFixedFileVersion_out ::
    "CVersionInfo \<Rightarrow> DWORD \<Rightarrow> DWORD \<Rightarrow> BOOL \<times> DWORD \<times> DWORD" where
  "GetFixedFileVersion_out this versionMS versionLS =
     (if m_bVersionFound this \<noteq> 0 then
        (TRUE, dwFileVersionMS (m_FixedFileInfo this), dwFileVersionLS (m_FixedFileInfo this))
      else (FALSE, versionMS, versionLS))"

subsection \<open>Reading the resource\<close>

definition log_call :: "os_call \<Rightarrow> CVersionInfo \<Rightarrow> CVersionInfo" where
  "log_call c this = this\<lparr>os_calls := os_calls this @ [c]\<rparr>"

text \<open>The backslash, which string literals here cannot hold, and the three kinds of selector.\<close>

definition bslash :: char where
  "bslash = CHR 0x5C"

definition sel_root :: string where
  "sel_root = [bslash]"

definition sel_translation :: string where
  "sel_translation = [bslash] @ ''VarFileInfo'' @ [bslash] @ ''Translation''"

definition sel_string :: "string \<Rightarrow> string \<Rightarrow> string \<Rightarrow> string" where
  "sel_string lang cp szId =
     [bslash] @ ''StringFileInfo'' @ [bslash] @ lang @ cp @ [bslash] @ szId"

text \<open>
  \<^verbatim>\<open>VerQueryValue\<close> on \<^verbatim>\<open>m_pVffInfo.get()\<close>. The class queries only a loaded
  buffer (the three readers below are called from the branch of
  \<^verbatim>\<open>GetVersionInfo\<close> where the load succeeded); on any other buffer the query
  is taken to fail with an empty array.
\<close>

definition VerQueryValue_root :: "ver_buffer \<Rightarrow> VS_FIXEDFILEINFO option" where
  "VerQueryValue_root buf = (case buf of Loaded blk \<Rightarrow> vq_root blk | _ \<Rightarrow> None)"

definition VerQueryValue_translation :: "ver_buffer \<Rightarrow> bool \<times> LANGUAGEANDCODEPAGE list" where
  "VerQueryValue_translation buf =
     (case buf of Loaded blk \<Rightarrow> vq_translation blk | _ \<Rightarrow> (False, []))"

definition VerQueryValue_string :: "ver_buffer \<Rightarrow> string \<Rightarrow> string option" where
  "VerQueryValue_string buf sel = (case buf of Loaded blk \<Rightarrow> vq_string blk sel | _ \<Rightarrow> None)"

text \<open>\<^verbatim>\<open>GetFixedVersionInfo\<close> (lines 399-412).\<close>

definition GetFixedVersionInfo :: "CVersionInfo \<Rightarrow> CVersionInfo" where
  "GetFixedVersionInfo this =
     (let this1 = log_call (Call_VerQueryValue sel_root) this;
          ffi = (case VerQueryValue_root (m_pVffInfo this1) of
                   Some pffi \<Rightarrow> pffi
                 | None \<Rightarrow> zero_VS_FIXEDFILEINFO);
          this2 = this1\<lparr>m_FixedFileInfo := ffi\<rparr>
      in this2\<lparr>m_dvi := (m_dvi this2)
           \<lparr>dwMajorVersion := ucast (HIWORD (dwFileVersionMS (m_FixedFileInfo this2))),
            dwMinorVersion := ucast (LOWORD (dwFileVersionMS (m_FixedFileInfo this2))),
            dwBuildNumber := ucast (HIWORD (dwFileVersionLS (m_FixedFileInfo this2)))\<rparr>\<rparr>)"

text \<open>
  The loop of \<^verbatim>\<open>GetCodepageForLanguage\<close> (lines 438-450), from the state
  \<open>(i, bFound, cp)\<close> to \<open>(bFound, cp)\<close> at the exit, \<open>cp\<close> being the reference
  \<^verbatim>\<open>wCodePage\<close>. The array has
  \<open>nLangCount\<close> entries, so every \<open>lpTranslate[i]\<close> read is inside it.
\<close>

function GetCodepageForLanguage_loop ::
    "LANGUAGEANDCODEPAGE list \<Rightarrow> WORD \<Rightarrow> nat \<Rightarrow> BOOL \<Rightarrow> WORD \<Rightarrow> BOOL \<times> WORD" where
  "GetCodepageForLanguage_loop lpTranslate lang i bFound cp =
     (if bFound = 0 \<and> i < length lpTranslate then
        (if wLanguage (lpTranslate ! i) = lang
         then GetCodepageForLanguage_loop lpTranslate lang i TRUE (wCodePage (lpTranslate ! i))
         else GetCodepageForLanguage_loop lpTranslate lang (i + 1) bFound cp)
      else (bFound, cp))"
  by pat_completeness auto
termination
  by (relation "measure (\<lambda>(lpTranslate, lang, i, bFound, cp).
        2 * (length lpTranslate - i) + (if bFound = 0 then 1 else 0))")
     (auto simp: TRUE_def)

declare GetCodepageForLanguage_loop.simps [simp del]

text \<open>
  \<^verbatim>\<open>GetCodepageForLanguage\<close> (lines 424-451): the \<^verbatim>\<open>BOOL\<close>, the value of the
  reference \<^verbatim>\<open>wCodePage\<close> on return, and the object. The return code of
  \<^verbatim>\<open>VerQueryValue\<close> is not looked at.
\<close>

definition GetCodepageForLanguage ::
    "CVersionInfo \<Rightarrow> WORD \<Rightarrow> WORD \<Rightarrow> BOOL \<times> WORD \<times> CVersionInfo" where
  "GetCodepageForLanguage this lang cp =
     (let this1 = log_call (Call_VerQueryValue sel_translation) this;
          lpTranslate = snd (VerQueryValue_translation (m_pVffInfo this1));
          (bFound, cp1) = GetCodepageForLanguage_loop lpTranslate lang 0 FALSE cp
      in (bFound, cp1, this1))"

text \<open>
  Modelled from the spec: \<^verbatim>\<open>strutils::trim_ws\<close> is defined in a file that is
  not among the sources. The specification says that a value found is stored
  with the surrounding whitespace trimmed; whitespace is taken in the sense of
  \<^verbatim>\<open>isspace\<close> (space, tab, line feed, vertical tab, form feed, carriage return).
\<close>

definition is_space :: "char \<Rightarrow> bool" where
  "is_space c = (let k = of_char c :: nat in k = 32 \<or> (9 \<le> k \<and> k \<le> 13))"

definition trim_ws :: "string \<Rightarrow> string" where
  "trim_ws s = rev (dropWhile is_space (rev (dropWhile is_space s)))"

text \<open>
  \<^verbatim>\<open>QueryValue(szId, s)\<close> (lines 370-394). The reference \<open>s\<close> is always a
  string member of the object itself, so it is passed as that member's update
  function. \<^verbatim>\<open>countof(szSelector) - 1\<close> is 255.
\<close>

definition QueryValue ::
    "string \<Rightarrow> ((string \<Rightarrow> string) \<Rightarrow> CVersionInfo \<Rightarrow> CVersionInfo) \<Rightarrow>
     CVersionInfo \<Rightarrow> CVersionInfo" where
  "QueryValue szId s_update this =
     (let szSelector = StringCchPrintf 255
            (sel_string (m_strLanguage this) (m_strCodepage this) szId);
          this1 = log_call (Call_VerQueryValue szSelector) this
      in case VerQueryValue_string (m_pVffInfo this1) szSelector of
           Some lpVersion \<Rightarrow>
             s_update (\<lambda>_. if lpVersion \<noteq> [] then trim_ws lpVersion else lpVersion) this1
         | None \<Rightarrow> s_update (\<lambda>_. []) this1)"

text \<open>
  The text \<^verbatim>\<open>QueryValue\<close> leaves in its reference, as a function of the
  buffer, the language and codepage strings and the name queried; and the
  eleven names \<^verbatim>\<open>QueryStrings\<close> queries, in its order.
\<close>

definition queried_text :: "ver_buffer \<Rightarrow> string \<Rightarrow> string \<Rightarrow> string \<Rightarrow> string" where
  "queried_text buf lang cp szId =
     (case VerQueryValue_string buf (StringCchPrintf 255 (sel_string lang cp szId)) of
        Some lpVersion \<Rightarrow> (if lpVersion \<noteq> [] then trim_ws lpVersion else lpVersion)
      | None \<Rightarrow> [])"

definition field_names :: "string list" where
  "field_names =
     [''CompanyName'', ''FileDescription'', ''FileVersion'', ''InternalName'',
      ''LegalCopyright'', ''OriginalFilename'', ''ProductName'', ''ProductVersion'',
      ''Comments'', ''SpecialBuild'', ''PrivateBuild'']"

text \<open>
  \<^verbatim>\<open>QueryStrings\<close> (lines 322-363): first the choice of the language and
  codepage strings (lines 324-351), then the eleven queries.
  \<^verbatim>\<open>countof(temp) - 1\<close> is 19.
\<close>

definition QueryStrings_language :: "indeterminate \<Rightarrow> CVersionInfo \<Rightarrow> CVersionInfo" where
  "QueryStrings_language ind this =
     (if m_wLanguage this \<noteq> 0 then
        (let (bFound, codepage, this1) =
               GetCodepageForLanguage this (m_wLanguage this) (ind_codepage ind)
         in this1\<lparr>m_strLanguage := StringCchPrintf 19 (fmt_04x (unat (m_wLanguage this1))),
                  m_strCodepage := StringCchPrintf 19 (fmt_04x (unat codepage))\<rparr>)
      else if m_strLanguage this = [] \<or> m_strCodepage this = [] then
        (let this1 = log_call (Call_VerQueryValue sel_translation) this
         in case VerQueryValue_translation (m_pVffInfo this1) of
              (True, lpTranslate) \<Rightarrow>
                (let e0 = (case lpTranslate of [] \<Rightarrow> ind_lpTranslate0 ind | e # _ \<Rightarrow> e)
                 in this1\<lparr>m_strLanguage := StringCchPrintf 19 (fmt_4_4X (unat (wLanguage e0))),
                          m_strCodepage := StringCchPrintf 19 (fmt_4_4X (unat (wCodePage e0)))\<rparr>)
            | (False, _) \<Rightarrow> this1)
      else this)"

definition QueryStrings :: "indeterminate \<Rightarrow> CVersionInfo \<Rightarrow> CVersionInfo" where
  "QueryStrings ind this =
     (let this1 = QueryStrings_language ind this;
          this2 = QueryValue ''CompanyName'' m_strCompanyName_update this1;
          this3 = QueryValue ''FileDescription'' m_strFileDescription_update this2;
          this4 = QueryValue ''FileVersion'' m_strFileVersion_update this3;
          this5 = QueryValue ''InternalName'' m_strInternalName_update this4;
          this6 = QueryValue ''LegalCopyright'' m_strLegalCopyright_update this5;
          this7 = QueryValue ''OriginalFilename'' m_strOriginalFilename_update this6;
          this8 = QueryValue ''ProductName'' m_strProductName_update this7;
          this9 = QueryValue ''ProductVersion'' m_strProductVersion_update this8;
          this10 = QueryValue ''Comments'' m_strComments_update this9;
          this11 = QueryValue ''SpecialBuild'' m_strSpecialBuild_update this10
      in QueryValue ''PrivateBuild'' m_strPrivateBuild_update this11)"

text \<open>
  \<^verbatim>\<open>GetVersionInfo\<close> (lines 274-317), in its parts: the name of the file
  (lines 282-285), the version resource (lines 287-298), the DLL version
  (lines 300-316), the beginning (lines 276-285: the two structures are
  zeroed, and the module's own file name is asked for when no file was given)
  and the whole.
\<close>

definition GetVersionInfo_szFileName :: "os_world \<Rightarrow> CVersionInfo \<Rightarrow> string" where
  "GetVersionInfo_szFileName os this =
     (if m_strFileName this = [] then os_GetModuleFileName os 0
      else StringCchCopy MAX_PATH (m_strFileName this))"

definition GetVersionInfo_resource ::
    "os_world \<Rightarrow> indeterminate \<Rightarrow> string \<Rightarrow> CVersionInfo \<Rightarrow> CVersionInfo" where
  "GetVersionInfo_resource os ind szFileName this =
     (let dwVerInfoSize = os_GetFileVersionInfoSize os szFileName;
          this1 = log_call (Call_GetFileVersionInfoSize szFileName) this
      in if dwVerInfoSize \<noteq> 0 then
           (let this2 = this1\<lparr>m_bVersionFound := TRUE, m_pVffInfo := Allocated dwVerInfoSize\<rparr>;
                this3 = log_call (Call_GetFileVersionInfo szFileName dwVerInfoSize) this2
            in case os_GetFileVersionInfo os szFileName dwVerInfoSize of
                 Some blk \<Rightarrow>
                   (let this4 = GetFixedVersionInfo (this3\<lparr>m_pVffInfo := Loaded blk\<rparr>)
                    in if m_bVersionOnly this4 = FALSE then QueryStrings ind this4 else this4)
               | None \<Rightarrow> this3)
         else this1)"

definition GetVersionInfo_dll :: "os_world \<Rightarrow> string \<Rightarrow> CVersionInfo \<Rightarrow> CVersionInfo" where
  "GetVersionInfo_dll os szFileName this =
     (if m_bDllVersion this \<noteq> 0 then
        (let hinstDll = os_LoadLibrary os szFileName;
             this1 = log_call (Call_LoadLibrary szFileName) this
         in if hinstDll \<noteq> 0 then
              (let this2 = log_call (Call_GetProcAddress hinstDll ''DllGetVersion'') this1;
                   this3 =
                     (case os_GetProcAddress os hinstDll ''DllGetVersion'' of
                        Some DllGetVersion \<Rightarrow>
                          (let dvi1 = (m_dvi this2)\<lparr>cbSize := sizeof_DLLVERSIONINFO\<rparr>;
                               (hr, dvi2) = DllGetVersion dvi1;
                               dvi3 = (if FAILED hr then dvi2\<lparr>cbSize := 0\<rparr> else dvi2)
                           in (log_call Call_DllGetVersion this2)\<lparr>m_dvi := dvi3\<rparr>)
                      | None \<Rightarrow> this2)
               in log_call (Call_FreeLibrary hinstDll) this3)
            else this1)
      else this)"

definition GetVersionInfo_begin :: "os_world \<Rightarrow> CVersionInfo \<Rightarrow> CVersionInfo" where
  "GetVersionInfo_begin os this =
     (let this1 = this\<lparr>m_FixedFileInfo := zero_VS_FIXEDFILEINFO, m_dvi := zero_DLLVERSIONINFO\<rparr>
      in if m_strFileName this1 = [] then log_call (Call_GetModuleFileName 0) this1 else this1)"

definition GetVersionInfo :: "os_world \<Rightarrow> indeterminate \<Rightarrow> CVersionInfo \<Rightarrow> CVersionInfo" where
  "GetVersionInfo os ind this =
     (let this1 = GetVersionInfo_begin os this;
          szFileName = GetVersionInfo_szFileName os this1;
          this2 = GetVersionInfo_resource os ind szFileName this1
      in GetVersionInfo_dll os szFileName this2)"

subsection \<open>Constructors\<close>

text \<open>
  A constructor runs on the storage of the new object. \<open>storage\<close> is what that
  storage holds before: the members of class type (the strings and the buffer
  pointer) are default-constructed to empty and null, the members of the
  initialiser list get their values, and every other member keeps what the
  storage held until something assigns it. No constructor's initialiser list
  names \<^verbatim>\<open>m_bVersionFound\<close> (lines 32-34, 49-51, 63-65, 81-83, 99-101).
\<close>

definition default_members :: "CVersionInfo \<Rightarrow> CVersionInfo" where
  "default_members storage =
     storage\<lparr>m_pVffInfo := NullBuffer, m_strFileName := [], m_strLanguage := [],
       m_strCodepage := [], m_strCompanyName := [], m_strFileDescription := [],
       m_strFileVersion := [], m_strInternalName := [], m_strLegalCopyright := [],
       m_strOriginalFilename := [], m_strProductName := [], m_strProductVersion := [],
       m_strComments := [], m_strSpecialBuild := [], m_strPrivateBuild := [],
       os_calls := []\<rparr>"

text \<open>The arguments of the five constructors; a null \<^verbatim>\<open>LPCTSTR\<close> is \<open>None\<close>.\<close>

datatype ctor_args =
    VersionOnly BOOL
  | Language WORD
  | FileDll "string option" BOOL
  | FileLangCodepage "string option" "string option" "string option"
  | Module HINSTANCE

definition assign_opt ::
    "((string \<Rightarrow> string) \<Rightarrow> CVersionInfo \<Rightarrow> CVersionInfo) \<Rightarrow> string option \<Rightarrow>
     CVersionInfo \<Rightarrow> CVersionInfo" where
  "assign_opt s_update sz this = (case sz of None \<Rightarrow> this | Some s \<Rightarrow> s_update (\<lambda>_. s) this)"

text \<open>The object when the constructor's body reaches its call of \<^verbatim>\<open>GetVersionInfo\<close>.\<close>

fun ctor_init :: "os_world \<Rightarrow> CVersionInfo \<Rightarrow> ctor_args \<Rightarrow> CVersionInfo" where
  "ctor_init os storage (VersionOnly bVersionOnly) =
     (default_members storage)
       \<lparr>m_wLanguage := 0, m_bVersionOnly := bVersionOnly, m_bDllVersion := FALSE\<rparr>"
| "ctor_init os storage (Language wLang) =
     (default_members storage)
       \<lparr>m_wLanguage := wLang, m_bVersionOnly := FALSE, m_bDllVersion := FALSE\<rparr>"
| "ctor_init os storage (FileDll szFileToVersion bDllVersion) =
     assign_opt m_strFileName_update szFileToVersion
       ((default_members storage)
          \<lparr>m_wLanguage := 0, m_bVersionOnly := FALSE, m_bDllVersion := bDllVersion\<rparr>)"
| "ctor_init os storage (FileLangCodepage szFileToVersion szLanguage szCodepage) =
     assign_opt m_strCodepage_update szCodepage
       (assign_opt m_strLanguage_update szLanguage
          (assign_opt m_strFileName_update szFileToVersion
             ((default_members storage)
                \<lparr>m_wLanguage := 0, m_bVersionOnly := FALSE, m_bDllVersion := FALSE\<rparr>)))"
| "ctor_init os storage (Module hModule) =
     log_call (Call_GetModuleFileName hModule)
       ((default_members storage)
          \<lparr>m_wLanguage := 0, m_bVersionOnly := FALSE, m_bDllVersion := FALSE,
           m_strFileName := os_GetModuleFileName os hModule\<rparr>)"

definition construct ::
    "os_world \<Rightarrow> indeterminate \<Rightarrow> CVersionInfo \<Rightarrow> ctor_args \<Rightarrow> CVersionInfo" where
  "construct os ind storage args = GetVersionInfo os ind (ctor_init os storage args)"

text \<open>The file name a construction passes to the operating system.\<close>

definition szFileName_of :: "os_world \<Rightarrow> CVersionInfo \<Rightarrow> ctor_args \<Rightarrow> string" where
  "szFileName_of os storage args = GetVersionInfo_szFileName os (ctor_init os storage args)"

section \<open>Environment.cpp\<close>

text \<open>
  What a call can end with instead of a value: an exception of the platform
  backend (\<^verbatim>\<open>getImpl\<close> throws when the variable cannot be read,
  \<^verbatim>\<open>nodeIdImpl\<close> when the adapter cannot be queried), or the invalid-parameter
  failure of \<^verbatim>\<open>sprintf_s\<close> when the text does not fit its buffer.
\<close>

datatype env_error = NotFoundException string | SystemException string | InvalidParameter

text \<open>\<^verbatim>\<open>typedef UInt8 NodeId[6]\<close>: six bytes.\<close>

datatype NodeId = NodeId BYTE BYTE BYTE BYTE BYTE BYTE

fun node_bytes :: "NodeId \<Rightarrow> BYTE list" where
  "node_bytes (NodeId a b c d e f) = [a, b, c, d, e, f]"

text \<open>
  \<^verbatim>\<open>EnvironmentImpl\<close>, the platform backend chosen at compile time (lines
  43-57); none of the backends is among the sources, so the functions of the
  backend that are modelled here are parameters.
\<close>

record EnvironmentImpl =
  getImpl :: "string \<Rightarrow> env_error + string"
  hasImpl :: "string \<Rightarrow> bool"
  nodeIdImpl :: "env_error + NodeId"

definition Environment_get :: "EnvironmentImpl \<Rightarrow> string \<Rightarrow> env_error + string" where
  "Environment_get impl name = getImpl impl name"

definition Environment_has :: "EnvironmentImpl \<Rightarrow> string \<Rightarrow> bool" where
  "Environment_has impl name = hasImpl impl name"

text \<open>\<^verbatim>\<open>Environment::get(name, defaultValue)\<close> (lines 69-75).\<close>

definition Environment_get_default ::
    "EnvironmentImpl \<Rightarrow> string \<Rightarrow> string \<Rightarrow> env_error + string" where
  "Environment_get_default impl name defaultValue =
     (if Environment_has impl name then Environment_get impl name else Inr defaultValue)"

text \<open>\<^verbatim>\<open>Environment::nodeId(NodeId& id)\<close> (lines 136-139).\<close>

definition Environment_nodeId_out :: "EnvironmentImpl \<Rightarrow> env_error + NodeId" where
  "Environment_nodeId_out impl = nodeIdImpl impl"

text \<open>
  \<^verbatim>\<open>sprintf_s(result, ...)\<close> into \<^verbatim>\<open>char result[N]\<close>: the text and its
  terminator must fit in \<open>N\<close> characters.
\<close>

definition sprintf_s :: "nat \<Rightarrow> string \<Rightarrow> env_error + string" where
  "sprintf_s sizeOfBuffer s = (if length s < sizeOfBuffer then Inr s else Inl InvalidParameter)"

text \<open>\<^verbatim>\<open>Environment::nodeId()\<close> (lines 120-133).\<close>

definition Environment_nodeId :: "EnvironmentImpl \<Rightarrow> env_error + string" where
  "Environment_nodeId impl =
     (case Environment_nodeId_out impl of
        Inl e \<Rightarrow> Inl e
      | Inr ident \<Rightarrow>
          sprintf_s 18
            (fmt_02x (unat (node_bytes ident ! 0)) @ '':'' @
             fmt_02x (unat (node_bytes ident ! 1)) @ '':'' @
             fmt_02x (unat (node_bytes ident ! 2)) @ '':'' @
             fmt_02x (unat (node_bytes ident ! 3)) @ '':'' @
             fmt_02x (unat (node_bytes ident ! 4)) @ '':'' @
             fmt_02x (unat (node_bytes ident ! 5))))"

text \<open>
  The pattern of a node identifier: \<open>n\<close> pairs of lowercase hexadecimal digits,
  joined by colons.
\<close>

definition is_lower_hex :: "char \<Rightarrow> bool" where
  "is_lower_hex c =
     (let k = of_char c :: nat in (48 \<le> k \<and> k \<le> 57) \<or> (97 \<le> k \<and> k \<le> 102))"

fun colon_hex_pairs :: "nat \<Rightarrow> string \<Rightarrow> bool" where
  "colon_hex_pairs (Suc 0) [a, b] = (is_lower_hex a \<and> is_lower_hex b)"
| "colon_hex_pairs (Suc (Suc n)) (a # b # c # rest) =
     (is_lower_hex a \<and> is_lower_hex b \<and> c = CHR '':'' \<and> colon_hex_pairs (Suc n) rest)"
| "colon_hex_pairs _ _ = False"

text \<open>Pair \<open>i\<close> of such a string, counted from 0.\<close>

definition pair_at :: "string \<Rightarrow> nat \<Rightarrow> string" where
  "pair_at s i = take 2 (drop (3 * i) s)"

section \<open>Concrete inputs\<close>

text \<open>
  A version resource of file version 1.2.3.4 and product version 5.6.7.0, with
  one translation entry (language 0409, codepage 04B0) and a company name
  stored with surrounding blanks under that entry's key. As the platform
  compares keys without regard to case, the name is found under both spellings
  of the key.
\<close>

definition ex_ffi :: VS_FIXEDFILEINFO where
  "ex_ffi = zero_VS_FIXEDFILEINFO
     \<lparr>dwFileVersionMS := 0x00010002, dwFileVersionLS := 0x00030004,
      dwProductVersionMS := 0x00050006, dwProductVersionLS := 0x00070000\<rparr>"

definition ex_strings :: "string \<Rightarrow> string option" where
  "ex_strings sel =
     (if sel = sel_string ''0409'' ''04B0'' ''CompanyName'' \<or>
         sel = sel_string ''0409'' ''04b0'' ''CompanyName''
      then Some '' Acme Corp ''
      else None)"

definition ex_block :: ver_block where
  "ex_block =
     \<lparr>vq_root = Some ex_ffi,
      vq_translation = (True, [\<lparr>wLanguage = 0x0409, wCodePage = 0x04B0\<rparr>]),
      vq_string = ex_strings\<rparr>"

text \<open>The same resource with a translation table that lists only language 0407.\<close>

definition ex_block_0407 :: ver_block where
  "ex_block_0407 =
     ex_block\<lparr>vq_translation := (True, [\<lparr>wLanguage = 0x0407, wCodePage = 0x04B0\<rparr>])\<rparr>"

text \<open>
  A system whose only file with a version resource is \<open>app.exe\<close>, the running
  program, which also loads as a module (handle 7) and exports nothing;
  \<open>plain.dll\<close> has no version resource, loads as a module (handle 9) and
  exports nothing either. \<open>blk\<close> is what loading the version information of
  \<open>app.exe\<close> gives (\<open>None\<close>: the load fails although the size query answers
  1024).
\<close>

definition ex_os :: "ver_block option \<Rightarrow> os_world" where
  "ex_os blk =
     \<lparr>os_GetModuleFileName = (\<lambda>h. ''app.exe''),
      os_GetFileVersionInfoSize = (\<lambda>f. if f = ''app.exe'' then 1024 else 0),
      os_GetFileVersionInfo = (\<lambda>f n. if f = ''app.exe'' then blk else None),
      os_LoadLibrary = (\<lambda>f. if f = ''app.exe'' then 7 else if f = ''plain.dll'' then 9 else 0),
      os_GetProcAddress = (\<lambda>h s. None)\<rparr>"

text \<open>
  Storage for a new object in which every scalar holds \<open>fill\<close>: 0 for
  zero-initialised storage, \<^verbatim>\<open>0xCCCCCCCC\<close> for the pattern a debug build
  writes into fresh stack memory.
\<close>

definition ex_storage :: "DWORD \<Rightarrow> CVersionInfo" where
  "ex_storage fill =
     \<lparr>m_FixedFileInfo = zero_VS_FIXEDFILEINFO\<lparr>dwSignature := fill\<rparr>,
      m_pVffInfo = NullBuffer, m_bVersionOnly = fill, m_bDllVersion = fill,
      m_wLanguage = ucast fill, m_bVersionFound = fill, m_strFileName = [],
      m_strLanguage = [], m_strCodepage = [], m_strCompanyName = [],
      m_strFileDescription = [], m_strFileVersion = [], m_strInternalName = [],
      m_strLegalCopyright = [], m_strOriginalFilename = [], m_strProductName = [],
      m_strProductVersion = [], m_strComments = [], m_strSpecialBuild = [],
      m_strPrivateBuild = [], m_dvi = zero_DLLVERSIONINFO\<lparr>cbSize := fill\<rparr>,
      os_calls = []\<rparr>"

definition ex_ind :: indeterminate where
  "ex_ind =
     \<lparr>ind_codepage = 0x04B0,
      ind_lpTranslate0 = \<lparr>wLanguage = 0xCCCC, wCodePage = 0xCCCC\<rparr>\<rparr>"

text \<open>An environment holding one variable, on a host whose adapter address is known.\<close>

definition ex_env :: EnvironmentImpl where
  "ex_env =
     \<lparr>getImpl = (\<lambda>name. if name = ''HOME'' then Inr ''/root''
                          else Inl (NotFoundException name)),
      hasImpl = (\<lambda>name. name = ''HOME''),
      nodeIdImpl = Inr (NodeId 0x00 0x1a 0x2b 0x3c 0x4d 0x5e)\<rparr>"

section \<open>Numerals\<close>

lemma digit_cases:
  "d < 16 \<Longrightarrow> d = 0 \<or> d = 1 \<or> d = 2 \<or> d = 3 \<or> d = 4 \<or> d = 5 \<or> d = 6 \<or> d = 7 \<or>
     d = 8 \<or> d = 9 \<or> d = 10 \<or> d = 11 \<or> d = 12 \<or> d = 13 \<or> d = 14 \<or> d = (15::nat)"
  by arith

lemma digit_value_digit_char: "d < 16 \<Longrightarrow> digit_value (digit_char upper d) = d"
  using digit_cases [of d]
  by (auto simp: digit_value_def digit_char_def)

lemma length_digits_of:
  "2 \<le> b \<Longrightarrow> 0 < k \<Longrightarrow> n < b ^ k \<Longrightarrow> length (digits_of b upper n) \<le> k"
proof (induction k arbitrary: n)
  case 0
  then show ?case by simp
next
  case (Suc k)
  show ?case
  proof (cases "n < b")
    case True
    then show ?thesis by (simp add: digits_of.simps [of b upper n])
  next
    case False
    with Suc.prems have k: "0 < k"
      by (cases k) auto
    from Suc.prems have "n div b < b ^ k"
      by (simp add: less_mult_imp_div_less mult.commute)
    with Suc.IH [OF Suc.prems(1) k] have "length (digits_of b upper (n div b)) \<le> k" .
    with False Suc.prems(1) show ?thesis
      by (simp add: digits_of.simps [of b upper n])
  qed
qed

lemma numeral_value_snoc:
  "numeral_value b (s @ [c]) = numeral_value b s * b + digit_value c"
  by (simp add: numeral_value_def)

text \<open>A rendering in base 2 to 16 denotes the number rendered.\<close>

lemma numeral_value_digits_of:
  "2 \<le> b \<Longrightarrow> b \<le> 16 \<Longrightarrow> numeral_value b (digits_of b upper n) = n"
proof (induction b upper n rule: digits_of.induct)
  case (1 base upper n)
  show ?case
  proof (cases "n < base")
    case True
    with 1 show ?thesis
      by (simp add: digits_of.simps [of base upper n] numeral_value_def digit_value_digit_char)
  next
    case False
    with 1 have "numeral_value base (digits_of base upper (n div base)) = n div base"
      by simp
    moreover have "n mod base < base" using 1(2) by simp
    then have "n mod base < 16" using 1(3) by simp
    ultimately show ?thesis using False 1(2)
      by (simp add: digits_of.simps [of base upper n] numeral_value_snoc digit_value_digit_char)
  qed
qed

lemma numeral_value_fmt_d: "numeral_value 10 (fmt_d n) = n"
  by (simp add: fmt_d_def numeral_value_digits_of)

lemma fmt_d_length: "n < 65536 \<Longrightarrow> length (fmt_d n) \<le> 5"
  unfolding fmt_d_def by (rule length_digits_of) simp_all

lemma unat_WORD_bound: "unat (w :: WORD) < 65536"
  using unsigned_less [of w, where ?'a = nat] by simp

lemma decimal_digit_char: "d < 10 \<Longrightarrow> is_decimal_digit (digit_char upper d)"
  using digit_cases [of d]
  by (auto simp: is_decimal_digit_def digit_char_def)

lemma digit_char_nonzero: "0 < d \<Longrightarrow> d < 10 \<Longrightarrow> digit_char upper d \<noteq> CHR ''0''"
  using digit_cases [of d]
  by (auto simp: digit_char_def)

lemma digits_of_nonempty: "digits_of b upper n \<noteq> []"
  by (subst digits_of.simps) simp

lemma digits_of_10_digits: "list_all is_decimal_digit (digits_of 10 upper n)"
proof (induction "10 :: nat" upper n rule: digits_of.induct)
  case (1 upper n)
  show ?case
  proof (cases "n < 10")
    case True
    then show ?thesis
      by (subst digits_of.simps) (simp add: decimal_digit_char)
  next
    case False
    with 1 have "list_all is_decimal_digit (digits_of 10 upper (n div 10))" by simp
    with False show ?thesis
      by (subst digits_of.simps) (simp add: decimal_digit_char)
  qed
qed

lemma digits_of_10_leading: "0 < n \<Longrightarrow> hd (digits_of 10 upper n) \<noteq> CHR ''0''"
proof (induction "10 :: nat" upper n rule: digits_of.induct)
  case (1 upper n)
  show ?case
  proof (cases "n < 10")
    case True
    with 1(2) show ?thesis
      by (subst digits_of.simps) (simp add: digit_char_nonzero)
  next
    case False
    then have "0 < n div 10" by simp
    with 1(1) False have "hd (digits_of 10 upper (n div 10)) \<noteq> CHR ''0''" by simp
    with False show ?thesis
      by (subst digits_of.simps) (simp add: digits_of_nonempty)
  qed
qed

lemma digits_of_10_single: "n < 10 \<Longrightarrow> length (digits_of 10 upper n) = 1"
  by (subst digits_of.simps) simp

lemma decimal_numeral_fmt_d: "decimal_numeral (fmt_d n) n"
proof (cases "n = 0")
  case True
  then show ?thesis
    by (simp add: decimal_numeral_def fmt_d_def digits_of_nonempty digits_of_10_digits
        digits_of_10_single numeral_value_digits_of)
next
  case False
  then show ?thesis
    by (simp add: decimal_numeral_def fmt_d_def digits_of_nonempty digits_of_10_digits
        digits_of_10_leading numeral_value_digits_of)
qed

lemma digit_char_digit_value:
  assumes "is_decimal_digit c"
  shows "digit_char upper (digit_value c) = c" and "digit_value c < 10"
proof -
  define k where "k = (of_char c :: nat)"
  from assms have "48 \<le> k" "k \<le> 57" by (simp_all add: is_decimal_digit_def k_def Let_def)
  then have k: "k = 48 \<or> k = 49 \<or> k = 50 \<or> k = 51 \<or> k = 52 \<or> k = 53 \<or> k = 54 \<or> k = 55 \<or>
      k = 56 \<or> k = 57" by arith
  have v: "digit_value c = k - 48" and "digit_value c < 10"
    using k by (auto simp: digit_value_def k_def Let_def)
  then show "digit_value c < 10" by simp
  have "(of_char (digit_char upper (digit_value c)) :: nat) = k"
    unfolding v using k by (auto simp: digit_char_def)
  then have "(of_char (digit_char upper (digit_value c)) :: nat) = of_char c"
    by (simp add: k_def)
  then show "digit_char upper (digit_value c) = c"
    by (simp only: of_char_eq_iff)
qed

lemma numeral_value_positive:
  assumes "list_all is_decimal_digit s" and "s \<noteq> []" and "hd s \<noteq> CHR ''0''"
  shows "0 < numeral_value 10 s"
  using assms
proof (induction s rule: rev_induct)
  case Nil
  then show ?case by simp
next
  case (snoc c s)
  show ?case
  proof (cases "s = []")
    case True
    with snoc.prems have d: "is_decimal_digit c" and z: "c \<noteq> CHR ''0''" by simp_all
    have "digit_value c \<noteq> 0"
    proof
      assume "digit_value c = 0"
      with digit_char_digit_value(1) [OF d, of False] have "c = digit_char False 0" by simp
      with z show False by (simp add: digit_char_def)
    qed
    with True show ?thesis by (simp add: numeral_value_def)
  next
    case False
    with snoc have "0 < numeral_value 10 s" by simp
    then show ?thesis by (simp add: numeral_value_snoc)
  qed
qed

text \<open>A number has one decimal numeral only: the one \<^verbatim>\<open>%d\<close> prints.\<close>

lemma decimal_numeral_unique:
  assumes "decimal_numeral s n"
  shows "s = fmt_d n"
  using assms
proof (induction s arbitrary: n rule: rev_induct)
  case Nil
  then show ?case by (simp add: decimal_numeral_def)
next
  case (snoc c s)
  from snoc.prems have d: "is_decimal_digit c" and ds: "list_all is_decimal_digit s"
    and v: "numeral_value 10 s * 10 + digit_value c = n"
    and canon: "s = [] \<or> hd (s @ [c]) \<noteq> CHR ''0''"
    by (auto simp: decimal_numeral_def numeral_value_snoc)
  note c = digit_char_digit_value(1) [OF d, of False] digit_char_digit_value(2) [OF d]
  show ?case
  proof (cases "s = []")
    case True
    with v c show ?thesis
      by (simp add: fmt_d_def digits_of.simps [of 10 False n] numeral_value_def)
  next
    case False
    with canon have h: "hd s \<noteq> CHR ''0''" by simp
    from numeral_value_positive [OF ds False h] have pos: "0 < numeral_value 10 s" .
    have "decimal_numeral s (numeral_value 10 s)"
      using ds False h by (simp add: decimal_numeral_def)
    from snoc.IH [OF this] have s: "s = fmt_d (numeral_value 10 s)" .
    from v c(2) have "n div 10 = numeral_value 10 s" and "n mod 10 = digit_value c" by auto
    moreover from v pos have "\<not> n < 10" by simp
    ultimately have "fmt_d n = fmt_d (numeral_value 10 s) @ [c]"
      using c(1) by (simp add: fmt_d_def digits_of.simps [of 10 False n])
    with s show ?thesis by simp
  qed
qed

section \<open>The version string\<close>

lemma MakeVersionString_untruncated:
  "MakeVersionString hi lo =
     (if LOWORD lo = 0 then
        fmt_d (unat (HIWORD hi)) @ ''.'' @ fmt_d (unat (LOWORD hi)) @ ''.'' @
        fmt_d (unat (HIWORD lo))
      else
        fmt_d (unat (HIWORD hi)) @ ''.'' @ fmt_d (unat (LOWORD hi)) @ ''.'' @
        fmt_d (unat (HIWORD lo)) @ ''.'' @ fmt_d (unat (LOWORD lo)))"
proof -
  have a: "length (fmt_d (unat (HIWORD hi))) \<le> 5" by (rule fmt_d_length [OF unat_WORD_bound])
  have b: "length (fmt_d (unat (LOWORD hi))) \<le> 5" by (rule fmt_d_length [OF unat_WORD_bound])
  have c: "length (fmt_d (unat (HIWORD lo))) \<le> 5" by (rule fmt_d_length [OF unat_WORD_bound])
  have d: "length (fmt_d (unat (LOWORD lo))) \<le> 5" by (rule fmt_d_length [OF unat_WORD_bound])
  show ?thesis
    using a b c d by (simp add: MakeVersionString_def StringCchPrintf_def)
qed

lemma MakeVersionString_instances:
  "MakeVersionString 0x00010002 0x00030000 = ''1.2.3''"
  "MakeVersionString 0x00010002 0x00030004 = ''1.2.3.4''"
  "MakeVersionString 0x000A000B 0x000C0000 = ''10.11.12''"
  "MakeVersionString 0xFFFF0407 0x00641F40 = ''65535.1031.100.8000''"
  by (simp_all add: MakeVersionString_def StringCchPrintf_def LOWORD_def HIWORD_def fmt_d_def
      digits_of.simps digit_char_def)

text \<open>
  C1. For every pair of 32-bit inputs \<open>hi\<close> and \<open>lo\<close>, the string that
  \<^verbatim>\<open>MakeVersionString\<close> returns is made of the decimal numerals of
  \<open>HIWORD hi\<close>, \<open>LOWORD hi\<close> and \<open>HIWORD lo\<close> joined by dots when the low 16
  bits of \<open>lo\<close> are zero, and of those three followed by a dot and the decimal
  numeral of \<open>LOWORD lo\<close> otherwise; the 49-character limit of the buffer never
  cuts it. The halves of 1.2.3.0 give \<open>1.2.3\<close>, those of 1.2.3.4 give
  \<open>1.2.3.4\<close>, those of 10.11.12.0 give \<open>10.11.12\<close> and those of
  65535.1031.100.8000 give \<open>65535.1031.100.8000\<close>.
\<close>

theorem MakeVersionString_format:
  "(\<exists>major minor build revision.
      decimal_numeral major (unat (HIWORD hi)) \<and> decimal_numeral minor (unat (LOWORD hi)) \<and>
      decimal_numeral build (unat (HIWORD lo)) \<and> decimal_numeral revision (unat (LOWORD lo)) \<and>
      MakeVersionString hi lo =
        (if LOWORD lo = 0 then major @ ''.'' @ minor @ ''.'' @ build
         else major @ ''.'' @ minor @ ''.'' @ build @ ''.'' @ revision))
   \<and> MakeVersionString 0x00010002 0x00030000 = ''1.2.3''
   \<and> MakeVersionString 0x00010002 0x00030004 = ''1.2.3.4''
   \<and> MakeVersionString 0x000A000B 0x000C0000 = ''10.11.12''
   \<and> MakeVersionString 0xFFFF0407 0x00641F40 = ''65535.1031.100.8000''"
proof -
  have "decimal_numeral (fmt_d (unat (HIWORD hi))) (unat (HIWORD hi)) \<and>
      decimal_numeral (fmt_d (unat (LOWORD hi))) (unat (LOWORD hi)) \<and>
      decimal_numeral (fmt_d (unat (HIWORD lo))) (unat (HIWORD lo)) \<and>
      decimal_numeral (fmt_d (unat (LOWORD lo))) (unat (LOWORD lo)) \<and>
      MakeVersionString hi lo =
        (if LOWORD lo = 0 then
           fmt_d (unat (HIWORD hi)) @ ''.'' @ fmt_d (unat (LOWORD hi)) @ ''.'' @
           fmt_d (unat (HIWORD lo))
         else
           fmt_d (unat (HIWORD hi)) @ ''.'' @ fmt_d (unat (LOWORD hi)) @ ''.'' @
           fmt_d (unat (HIWORD lo)) @ ''.'' @ fmt_d (unat (LOWORD lo)))"
    using MakeVersionString_untruncated [of hi lo] by (simp add: decimal_numeral_fmt_d)
  then have "\<exists>major minor build revision.
      decimal_numeral major (unat (HIWORD hi)) \<and> decimal_numeral minor (unat (LOWORD hi)) \<and>
      decimal_numeral build (unat (HIWORD lo)) \<and> decimal_numeral revision (unat (LOWORD lo)) \<and>
      MakeVersionString hi lo =
        (if LOWORD lo = 0 then major @ ''.'' @ minor @ ''.'' @ build
         else major @ ''.'' @ minor @ ''.'' @ build @ ''.'' @ revision)"
    by blast
  with MakeVersionString_instances show ?thesis by blast
qed

section \<open>The parts of the construction\<close>

lemmas getter_defs = GetFileVersion_def GetPrivateBuild_def GetSpecialBuild_def GetCompanyName_def
  GetFileDescription_def GetInternalName_def GetLegalCopyright_def GetOriginalFilename_def
  GetProductVersion_def GetComments_def GetProductName_def

lemma QueryValue_alt:
  "QueryValue szId s_update this =
     s_update (\<lambda>_. queried_text (m_pVffInfo this) (m_strLanguage this) (m_strCodepage this) szId)
       (log_call (Call_VerQueryValue
          (StringCchPrintf 255 (sel_string (m_strLanguage this) (m_strCodepage this) szId))) this)"
  by (simp add: QueryValue_def queried_text_def Let_def log_call_def split: option.splits)

lemma QueryStrings_getters:
  "string_getters (QueryStrings ind this) =
     map (queried_text (m_pVffInfo (QueryStrings_language ind this))
            (m_strLanguage (QueryStrings_language ind this))
            (m_strCodepage (QueryStrings_language ind this))) field_names"
  by (simp add: QueryStrings_def QueryValue_alt log_call_def string_getters_def getter_defs
      field_names_def Let_def)

lemma QueryStrings_frame:
  "m_bVersionFound (QueryStrings ind this) = m_bVersionFound (QueryStrings_language ind this)"
  "m_FixedFileInfo (QueryStrings ind this) = m_FixedFileInfo (QueryStrings_language ind this)"
  "m_dvi (QueryStrings ind this) = m_dvi (QueryStrings_language ind this)"
  "m_strLanguage (QueryStrings ind this) = m_strLanguage (QueryStrings_language ind this)"
  "m_strCodepage (QueryStrings ind this) = m_strCodepage (QueryStrings_language ind this)"
  "m_bDllVersion (QueryStrings ind this) = m_bDllVersion (QueryStrings_language ind this)"
  by (simp_all add: QueryStrings_def QueryValue_alt log_call_def Let_def)

lemma QueryStrings_language_frame:
  "m_bVersionFound (QueryStrings_language ind this) = m_bVersionFound this"
  "m_FixedFileInfo (QueryStrings_language ind this) = m_FixedFileInfo this"
  "m_dvi (QueryStrings_language ind this) = m_dvi this"
  "m_pVffInfo (QueryStrings_language ind this) = m_pVffInfo this"
  "m_bDllVersion (QueryStrings_language ind this) = m_bDllVersion this"
  by (simp_all add: QueryStrings_language_def GetCodepageForLanguage_def log_call_def Let_def
      split: prod.splits bool.splits list.splits)

lemma GetFixedVersionInfo_fields:
  "m_FixedFileInfo (GetFixedVersionInfo this) =
     (case VerQueryValue_root (m_pVffInfo this) of Some pffi \<Rightarrow> pffi | None \<Rightarrow> zero_VS_FIXEDFILEINFO)"
  "m_dvi (GetFixedVersionInfo this) = (m_dvi this)
     \<lparr>dwMajorVersion := ucast (HIWORD (dwFileVersionMS (m_FixedFileInfo (GetFixedVersionInfo this)))),
      dwMinorVersion := ucast (LOWORD (dwFileVersionMS (m_FixedFileInfo (GetFixedVersionInfo this)))),
      dwBuildNumber := ucast (HIWORD (dwFileVersionLS (m_FixedFileInfo (GetFixedVersionInfo this))))\<rparr>"
  "os_calls (GetFixedVersionInfo this) = os_calls this @ [Call_VerQueryValue sel_root]"
  "string_getters (GetFixedVersionInfo this) = string_getters this"
  "m_bVersionFound (GetFixedVersionInfo this) = m_bVersionFound this"
  "m_bVersionOnly (GetFixedVersionInfo this) = m_bVersionOnly this"
  "m_bDllVersion (GetFixedVersionInfo this) = m_bDllVersion this"
  "m_wLanguage (GetFixedVersionInfo this) = m_wLanguage this"
  "m_strLanguage (GetFixedVersionInfo this) = m_strLanguage this"
  "m_strCodepage (GetFixedVersionInfo this) = m_strCodepage this"
  "m_pVffInfo (GetFixedVersionInfo this) = m_pVffInfo this"
  by (simp_all add: GetFixedVersionInfo_def log_call_def Let_def string_getters_def getter_defs)

lemma GetVersionInfo_begin_fields:
  "m_FixedFileInfo (GetVersionInfo_begin os this) = zero_VS_FIXEDFILEINFO"
  "m_dvi (GetVersionInfo_begin os this) = zero_DLLVERSIONINFO"
  "string_getters (GetVersionInfo_begin os this) = string_getters this"
  "m_bVersionFound (GetVersionInfo_begin os this) = m_bVersionFound this"
  "m_bVersionOnly (GetVersionInfo_begin os this) = m_bVersionOnly this"
  "m_bDllVersion (GetVersionInfo_begin os this) = m_bDllVersion this"
  "m_wLanguage (GetVersionInfo_begin os this) = m_wLanguage this"
  "m_strLanguage (GetVersionInfo_begin os this) = m_strLanguage this"
  "m_strCodepage (GetVersionInfo_begin os this) = m_strCodepage this"
  "m_strFileName (GetVersionInfo_begin os this) = m_strFileName this"
  "m_pVffInfo (GetVersionInfo_begin os this) = m_pVffInfo this"
  "GetVersionInfo_szFileName os (GetVersionInfo_begin os this) = GetVersionInfo_szFileName os this"
  by (simp_all add: GetVersionInfo_begin_def GetVersionInfo_szFileName_def log_call_def Let_def
      string_getters_def getter_defs)

lemma GetVersionInfo_dll_frame:
  "string_getters (GetVersionInfo_dll os f this) = string_getters this"
  "m_bVersionFound (GetVersionInfo_dll os f this) = m_bVersionFound this"
  "m_FixedFileInfo (GetVersionInfo_dll os f this) = m_FixedFileInfo this"
  "m_strLanguage (GetVersionInfo_dll os f this) = m_strLanguage this"
  "m_strCodepage (GetVersionInfo_dll os f this) = m_strCodepage this"
  by (simp_all add: GetVersionInfo_dll_def log_call_def Let_def string_getters_def getter_defs
      split: option.splits prod.splits)

lemma ctor_init_fields:
  "string_getters (ctor_init os storage args) = replicate 11 []"
  "m_bVersionFound (ctor_init os storage args) = m_bVersionFound storage"
  "m_pVffInfo (ctor_init os storage args) = NullBuffer"
  by (cases args; simp add: default_members_def assign_opt_def log_call_def string_getters_def
      getter_defs numeral_eq_Suc split: option.splits)+

lemma log_call_fields:
  "string_getters (log_call c this) = string_getters this"
  "m_bVersionFound (log_call c this) = m_bVersionFound this"
  "m_FixedFileInfo (log_call c this) = m_FixedFileInfo this"
  "m_dvi (log_call c this) = m_dvi this"
  "m_bDllVersion (log_call c this) = m_bDllVersion this"
  "m_strLanguage (log_call c this) = m_strLanguage this"
  "m_strCodepage (log_call c this) = m_strCodepage this"
  by (simp_all add: log_call_def string_getters_def getter_defs)

lemma string_getters_update:
  "string_getters (this\<lparr>m_bVersionFound := b\<rparr>) = string_getters this"
  "string_getters (this\<lparr>m_pVffInfo := p\<rparr>) = string_getters this"
  by (simp_all add: string_getters_def getter_defs)

section \<open>The version resource, case by case\<close>

lemma resource_absent:
  "os_GetFileVersionInfoSize os f = 0 \<Longrightarrow>
   GetVersionInfo_resource os ind f this = log_call (Call_GetFileVersionInfoSize f) this"
  by (simp add: GetVersionInfo_resource_def Let_def)

lemma resource_unreadable:
  "os_GetFileVersionInfoSize os f \<noteq> 0 \<Longrightarrow>
   os_GetFileVersionInfo os f (os_GetFileVersionInfoSize os f) = None \<Longrightarrow>
   GetVersionInfo_resource os ind f this =
     log_call (Call_GetFileVersionInfo f (os_GetFileVersionInfoSize os f))
       ((log_call (Call_GetFileVersionInfoSize f) this)
          \<lparr>m_bVersionFound := TRUE, m_pVffInfo := Allocated (os_GetFileVersionInfoSize os f)\<rparr>)"
  by (simp add: GetVersionInfo_resource_def Let_def)

lemma resource_loaded:
  "os_GetFileVersionInfoSize os f \<noteq> 0 \<Longrightarrow>
   os_GetFileVersionInfo os f (os_GetFileVersionInfoSize os f) = Some blk \<Longrightarrow>
   GetVersionInfo_resource os ind f this =
     (let this4 = GetFixedVersionInfo
            ((log_call (Call_GetFileVersionInfo f (os_GetFileVersionInfoSize os f))
               ((log_call (Call_GetFileVersionInfoSize f) this)
                  \<lparr>m_bVersionFound := TRUE,
                   m_pVffInfo := Allocated (os_GetFileVersionInfoSize os f)\<rparr>))
             \<lparr>m_pVffInfo := Loaded blk\<rparr>)
      in if m_bVersionOnly this = FALSE then QueryStrings ind this4 else this4)"
  by (simp add: GetVersionInfo_resource_def Let_def GetFixedVersionInfo_fields log_call_def)

lemma construct_parts:
  "construct os ind storage args =
     GetVersionInfo_dll os (szFileName_of os storage args)
       (GetVersionInfo_resource os ind (szFileName_of os storage args)
          (GetVersionInfo_begin os (ctor_init os storage args)))"
  by (simp add: construct_def GetVersionInfo_def Let_def szFileName_of_def
      GetVersionInfo_begin_fields)

lemma MakeVersionString_zero: "MakeVersionString 0 0 = ''0.0.0''"
  by (simp add: MakeVersionString_def StringCchPrintf_def LOWORD_def HIWORD_def fmt_d_def
      digits_of.simps digit_char_def)

lemma zero_ffi_fields:
  "dwFileVersionMS zero_VS_FIXEDFILEINFO = 0" "dwFileVersionLS zero_VS_FIXEDFILEINFO = 0"
  "dwProductVersionMS zero_VS_FIXEDFILEINFO = 0" "dwProductVersionLS zero_VS_FIXEDFILEINFO = 0"
  by (simp_all add: zero_VS_FIXEDFILEINFO_def)

lemma fixed_getters_found:
  "m_bVersionFound this \<noteq> 0 \<Longrightarrow>
   GetFixedFileVersion this =
     MakeVersionString (dwFileVersionMS (m_FixedFileInfo this)) (dwFileVersionLS (m_FixedFileInfo this))
   \<and> GetFixedProductVersion this =
     MakeVersionString (dwProductVersionMS (m_FixedFileInfo this))
       (dwProductVersionLS (m_FixedFileInfo this))
   \<and> GetFixedFileVersion_out this versionMS versionLS =
     (TRUE, dwFileVersionMS (m_FixedFileInfo this), dwFileVersionLS (m_FixedFileInfo this))"
  by (simp add: GetFixedFileVersion_def GetFixedProductVersion_def GetFixedFileVersion_out_def)

lemma fixed_getters_not_found:
  "m_bVersionFound this = 0 \<Longrightarrow>
   GetFixedFileVersion this = [] \<and> GetFixedProductVersion this = []
   \<and> GetFixedFileVersion_out this versionMS versionLS = (FALSE, versionMS, versionLS)"
  by (simp add: GetFixedFileVersion_def GetFixedProductVersion_def GetFixedFileVersion_out_def)

lemma construct_absent:
  assumes "os_GetFileVersionInfoSize os (szFileName_of os storage args) = 0"
  shows "string_getters (construct os ind storage args) = replicate 11 []"
    and "m_bVersionFound (construct os ind storage args) = m_bVersionFound storage"
    and "m_FixedFileInfo (construct os ind storage args) = zero_VS_FIXEDFILEINFO"
  by (simp_all add: construct_parts resource_absent [OF assms] GetVersionInfo_dll_frame
      log_call_fields GetVersionInfo_begin_fields ctor_init_fields)

lemma construct_unreadable:
  assumes "os_GetFileVersionInfoSize os (szFileName_of os storage args) \<noteq> 0"
    and "os_GetFileVersionInfo os (szFileName_of os storage args)
           (os_GetFileVersionInfoSize os (szFileName_of os storage args)) = None"
  shows "string_getters (construct os ind storage args) = replicate 11 []"
    and "m_bVersionFound (construct os ind storage args) = TRUE"
    and "m_FixedFileInfo (construct os ind storage args) = zero_VS_FIXEDFILEINFO"
  by (simp_all add: construct_parts resource_unreadable [OF assms] GetVersionInfo_dll_frame
      log_call_fields GetVersionInfo_begin_fields ctor_init_fields string_getters_update)

lemma construct_loaded_fixed:
  assumes "os_GetFileVersionInfoSize os (szFileName_of os storage args) \<noteq> 0"
    and "os_GetFileVersionInfo os (szFileName_of os storage args)
           (os_GetFileVersionInfoSize os (szFileName_of os storage args)) = Some blk"
  shows "m_bVersionFound (construct os ind storage args) = TRUE"
    and "m_FixedFileInfo (construct os ind storage args) =
           (case vq_root blk of Some pffi \<Rightarrow> pffi | None \<Rightarrow> zero_VS_FIXEDFILEINFO)"
  by (simp_all add: construct_parts resource_loaded [OF assms] GetVersionInfo_dll_frame Let_def
      QueryStrings_frame QueryStrings_language_frame GetFixedVersionInfo_fields
      log_call_fields VerQueryValue_root_def)

text \<open>The example system.\<close>

lemma ex_file_own:
  "szFileName_of (ex_os blk) storage (VersionOnly b) = ''app.exe''"
  "szFileName_of (ex_os blk) storage (Language l) = ''app.exe''"
  "szFileName_of (ex_os blk) storage (FileDll None b) = ''app.exe''"
  "szFileName_of (ex_os blk) storage (FileDll (Some ''app.exe'') b) = ''app.exe''"
  "szFileName_of (ex_os blk) storage (FileDll (Some ''notes.txt'') b) = ''notes.txt''"
  "szFileName_of (ex_os blk) storage (FileDll (Some ''plain.dll'') b) = ''plain.dll''"
  "szFileName_of (ex_os blk) storage (FileLangCodepage (Some ''app.exe'') sl sc) = ''app.exe''"
  by (simp_all add: szFileName_of_def GetVersionInfo_szFileName_def default_members_def
      assign_opt_def ex_os_def StringCchCopy_def MAX_PATH_def split: option.splits)

lemma ex_os_fields:
  "os_GetFileVersionInfoSize (ex_os blk) ''app.exe'' = 1024"
  "os_GetFileVersionInfoSize (ex_os blk) ''notes.txt'' = 0"
  "os_GetFileVersionInfo (ex_os blk) ''app.exe'' n = blk"
  "os_GetFileVersionInfoSize (ex_os blk) ''plain.dll'' = 0"
  "os_LoadLibrary (ex_os blk) ''app.exe'' = 7"
  "os_LoadLibrary (ex_os blk) ''plain.dll'' = 9"
  "os_GetProcAddress (ex_os blk) h s = None"
  by (simp_all add: ex_os_def)

text \<open>
  C2, as the code has it. For every construction in which the size query
  answers a nonzero size and the load of the version information then fails,
  the eleven string getters return the empty string, but the found flag is
  \<^verbatim>\<open>TRUE\<close> (it is set before the load, line 290) and the fixed information
  is the zeroed structure: \<^verbatim>\<open>GetFixedFileVersion()\<close> and
  \<^verbatim>\<open>GetFixedProductVersion()\<close> return \<open>0.0.0\<close>, and the two-reference
  \<^verbatim>\<open>GetFixedFileVersion\<close> returns \<^verbatim>\<open>TRUE\<close> and writes 0 and 0.
\<close>

theorem load_failure_after_size_probe:
  assumes "os_GetFileVersionInfoSize os (szFileName_of os storage args) \<noteq> 0"
    and "os_GetFileVersionInfo os (szFileName_of os storage args)
           (os_GetFileVersionInfoSize os (szFileName_of os storage args)) = None"
  shows "string_getters (construct os ind storage args) = replicate 11 []
     \<and> m_bVersionFound (construct os ind storage args) = TRUE
     \<and> GetFixedFileVersion (construct os ind storage args) = ''0.0.0''
     \<and> GetFixedProductVersion (construct os ind storage args) = ''0.0.0''
     \<and> GetFixedFileVersion_out (construct os ind storage args) versionMS versionLS = (TRUE, 0, 0)"
  using fixed_getters_found [of "construct os ind storage args" versionMS versionLS]
  by (simp add: construct_unreadable [OF assms] TRUE_def zero_ffi_fields MakeVersionString_zero)

text \<open>
  An instance: the program's own file, whose size query answers 1024 and whose
  load fails.
\<close>

theorem load_failure_after_size_probe_witness:
  "os_GetFileVersionInfoSize (ex_os None)
      (szFileName_of (ex_os None) (ex_storage 0) (VersionOnly FALSE)) = 1024
   \<and> os_GetFileVersionInfo (ex_os None)
      (szFileName_of (ex_os None) (ex_storage 0) (VersionOnly FALSE)) 1024 = None
   \<and> string_getters (construct (ex_os None) ex_ind (ex_storage 0) (VersionOnly FALSE)) =
       replicate 11 []
   \<and> GetFixedFileVersion (construct (ex_os None) ex_ind (ex_storage 0) (VersionOnly FALSE)) =
       ''0.0.0''
   \<and> GetFixedFileVersion_out (construct (ex_os None) ex_ind (ex_storage 0) (VersionOnly FALSE))
       5 6 = (TRUE, 0, 0)"
  using load_failure_after_size_probe [of "ex_os None" "ex_storage 0" "VersionOnly FALSE" ex_ind 5 6]
  by (simp add: ex_file_own ex_os_fields)

text \<open>
  C2 as stated fails at that instance: the fixed getters do not report
  empty or not found.
\<close>

theorem load_failure_counterexample:
  "os_GetFileVersionInfoSize (ex_os None)
      (szFileName_of (ex_os None) (ex_storage 0) (VersionOnly FALSE)) \<noteq> 0
   \<and> os_GetFileVersionInfo (ex_os None)
      (szFileName_of (ex_os None) (ex_storage 0) (VersionOnly FALSE)) 1024 = None
   \<and> GetFixedFileVersion (construct (ex_os None) ex_ind (ex_storage 0) (VersionOnly FALSE)) \<noteq> []
   \<and> GetFixedProductVersion (construct (ex_os None) ex_ind (ex_storage 0) (VersionOnly FALSE)) \<noteq> []
   \<and> fst (GetFixedFileVersion_out
        (construct (ex_os None) ex_ind (ex_storage 0) (VersionOnly FALSE)) 5 6) \<noteq> FALSE"
proof -
  let ?v = "construct (ex_os None) ex_ind (ex_storage 0) (VersionOnly FALSE)"
  have size: "os_GetFileVersionInfoSize (ex_os None)
      (szFileName_of (ex_os None) (ex_storage 0) (VersionOnly FALSE)) \<noteq> 0"
    by (simp add: ex_file_own ex_os_fields)
  have load: "os_GetFileVersionInfo (ex_os None)
      (szFileName_of (ex_os None) (ex_storage 0) (VersionOnly FALSE))
      (os_GetFileVersionInfoSize (ex_os None)
        (szFileName_of (ex_os None) (ex_storage 0) (VersionOnly FALSE))) = None"
    by (simp add: ex_file_own ex_os_fields)
  have found: "m_bVersionFound ?v \<noteq> 0"
    by (simp add: construct_unreadable(2) [OF size load] TRUE_def)
  have info: "m_FixedFileInfo ?v = zero_VS_FIXEDFILEINFO"
    by (rule construct_unreadable(3) [OF size load])
  have neq: "TRUE \<noteq> FALSE" by (simp add: TRUE_def FALSE_def)
  from fixed_getters_found [OF found, of 5 6] size load neq show ?thesis
    by (simp add: info zero_ffi_fields MakeVersionString_zero ex_file_own ex_os_fields)
qed

text \<open>
  What holds when the size query answers 0: the string getters are empty, and
  the fixed getters report empty and \<^verbatim>\<open>FALSE\<close> provided the storage of the
  object held \<^verbatim>\<open>FALSE\<close> where the found flag lies.
\<close>

lemma absent_resource_zero_storage:
  assumes "os_GetFileVersionInfoSize os (szFileName_of os storage args) = 0"
    and "m_bVersionFound storage = FALSE"
  shows "string_getters (construct os ind storage args) = replicate 11 []
     \<and> GetFixedFileVersion (construct os ind storage args) = []
     \<and> GetFixedProductVersion (construct os ind storage args) = []
     \<and> GetFixedFileVersion_out (construct os ind storage args) versionMS versionLS =
         (FALSE, versionMS, versionLS)"
proof -
  have "m_bVersionFound (construct os ind storage args) = 0"
    using construct_absent(2) [OF assms(1), of ind] assms(2) by (simp add: FALSE_def)
  from fixed_getters_not_found [OF this, of versionMS versionLS] construct_absent(1) [OF assms(1)]
  show ?thesis by simp
qed

text \<open>
  C3, at a failing input. The file \<open>notes.txt\<close> has no version resource (the
  size query answers 0) and the object is built in storage that holds
  \<^verbatim>\<open>0xCCCCCCCC\<close>. No constructor and no path of \<^verbatim>\<open>GetVersionInfo\<close> with size
  zero assigns \<^verbatim>\<open>m_bVersionFound\<close>, so the flag still holds \<^verbatim>\<open>0xCCCCCCCC\<close>,
  which is not \<^verbatim>\<open>FALSE\<close>: the fixed getters return \<open>0.0.0\<close> and \<^verbatim>\<open>TRUE\<close>
  where the claim says empty and \<^verbatim>\<open>FALSE\<close>.
\<close>

theorem absent_resource_unassigned_flag:
  "os_GetFileVersionInfoSize (ex_os None)
      (szFileName_of (ex_os None) (ex_storage 0xCCCCCCCC) (FileDll (Some ''notes.txt'') FALSE)) = 0
   \<and> m_bVersionFound
        (construct (ex_os None) ex_ind (ex_storage 0xCCCCCCCC) (FileDll (Some ''notes.txt'') FALSE))
       = 0xCCCCCCCC
   \<and> GetFixedFileVersion
        (construct (ex_os None) ex_ind (ex_storage 0xCCCCCCCC) (FileDll (Some ''notes.txt'') FALSE))
       = ''0.0.0''
   \<and> GetFixedProductVersion
        (construct (ex_os None) ex_ind (ex_storage 0xCCCCCCCC) (FileDll (Some ''notes.txt'') FALSE))
       = ''0.0.0''
   \<and> GetFixedFileVersion_out
        (construct (ex_os None) ex_ind (ex_storage 0xCCCCCCCC) (FileDll (Some ''notes.txt'') FALSE))
        5 6 = (TRUE, 0, 0)"
proof -
  let ?v = "construct (ex_os None) ex_ind (ex_storage 0xCCCCCCCC) (FileDll (Some ''notes.txt'') FALSE)"
  have size: "os_GetFileVersionInfoSize (ex_os None)
      (szFileName_of (ex_os None) (ex_storage 0xCCCCCCCC) (FileDll (Some ''notes.txt'') FALSE)) = 0"
    by (simp add: ex_file_own ex_os_fields)
  have flag: "m_bVersionFound ?v = 0xCCCCCCCC"
    using construct_absent(2) [OF size, of ex_ind] by (simp add: ex_storage_def)
  then have found: "m_bVersionFound ?v \<noteq> 0" by simp
  have info: "m_FixedFileInfo ?v = zero_VS_FIXEDFILEINFO"
    by (rule construct_absent(3) [OF size])
  from fixed_getters_found [OF found, of 5 6] size flag show ?thesis
    by (simp add: info zero_ffi_fields MakeVersionString_zero)
qed

lemma construct_loaded_version_only:
  assumes "os_GetFileVersionInfoSize os (szFileName_of os storage args) \<noteq> 0"
    and "os_GetFileVersionInfo os (szFileName_of os storage args)
           (os_GetFileVersionInfoSize os (szFileName_of os storage args)) = Some blk"
    and "m_bVersionOnly (ctor_init os storage args) \<noteq> FALSE"
  shows "string_getters (construct os ind storage args) = replicate 11 []"
  using assms(3)
  by (simp add: construct_parts resource_loaded [OF assms(1,2)] GetVersionInfo_dll_frame Let_def
      GetFixedVersionInfo_fields GetVersionInfo_begin_fields log_call_fields ctor_init_fields
      string_getters_update)

lemma version_only_strings:
  assumes "b \<noteq> FALSE"
  shows "string_getters (construct os ind storage (VersionOnly b)) = replicate 11 []"
proof (cases "os_GetFileVersionInfoSize os (szFileName_of os storage (VersionOnly b)) = 0")
  case True
  then show ?thesis by (rule construct_absent(1))
next
  case size: False
  show ?thesis
  proof (cases "os_GetFileVersionInfo os (szFileName_of os storage (VersionOnly b))
           (os_GetFileVersionInfoSize os (szFileName_of os storage (VersionOnly b)))")
    case None
    with size show ?thesis by (rule construct_unreadable(1))
  next
    case (Some blk)
    have "m_bVersionOnly (ctor_init os storage (VersionOnly b)) \<noteq> FALSE"
      using assms by simp
    with size Some show ?thesis by (rule construct_loaded_version_only)
  qed
qed

lemma version_only_calls:
  assumes "b \<noteq> FALSE"
  shows "os_calls (construct os ind storage (VersionOnly b)) =
     [Call_GetModuleFileName 0, Call_GetFileVersionInfoSize (os_GetModuleFileName os 0)] @
     (if os_GetFileVersionInfoSize os (os_GetModuleFileName os 0) = 0 then []
      else Call_GetFileVersionInfo (os_GetModuleFileName os 0)
             (os_GetFileVersionInfoSize os (os_GetModuleFileName os 0)) #
           (case os_GetFileVersionInfo os (os_GetModuleFileName os 0)
                   (os_GetFileVersionInfoSize os (os_GetModuleFileName os 0)) of
              None \<Rightarrow> []
            | Some blk \<Rightarrow> [Call_VerQueryValue sel_root]))"
  using assms
  by (simp add: construct_def GetVersionInfo_def GetVersionInfo_begin_def
      GetVersionInfo_szFileName_def GetVersionInfo_resource_def GetVersionInfo_dll_def
      GetFixedVersionInfo_def log_call_def default_members_def Let_def FALSE_def
      split: option.splits)

lemma version_only_file: "szFileName_of os storage (VersionOnly b) = os_GetModuleFileName os 0"
  by (simp add: szFileName_of_def GetVersionInfo_szFileName_def default_members_def)

text \<open>
  C6. For every construction with the version-only flag set (any value but
  \<^verbatim>\<open>FALSE\<close>), the eleven string getters return the empty string whatever the
  resource holds; the only calls made are the file-name, size and load calls
  and, once the block is loaded, the one query of the root: no translation or
  string query is issued. When the resource is found and loaded and its root
  holds the fixed information \<open>ffi\<close>, the fixed getters return the numeric
  versions of \<open>ffi\<close>.
\<close>

theorem version_only_construction:
  assumes "bVersionOnly \<noteq> FALSE"
  shows "string_getters (construct os ind storage (VersionOnly bVersionOnly)) = replicate 11 []
     \<and> os_calls (construct os ind storage (VersionOnly bVersionOnly)) =
         [Call_GetModuleFileName 0, Call_GetFileVersionInfoSize (os_GetModuleFileName os 0)] @
         (if os_GetFileVersionInfoSize os (os_GetModuleFileName os 0) = 0 then []
          else Call_GetFileVersionInfo (os_GetModuleFileName os 0)
                 (os_GetFileVersionInfoSize os (os_GetModuleFileName os 0)) #
               (case os_GetFileVersionInfo os (os_GetModuleFileName os 0)
                       (os_GetFileVersionInfoSize os (os_GetModuleFileName os 0)) of
                  None \<Rightarrow> []
                | Some blk \<Rightarrow> [Call_VerQueryValue sel_root]))
     \<and> (os_GetFileVersionInfoSize os (os_GetModuleFileName os 0) \<noteq> 0 \<longrightarrow>
        os_GetFileVersionInfo os (os_GetModuleFileName os 0)
          (os_GetFileVersionInfoSize os (os_GetModuleFileName os 0)) = Some blk \<longrightarrow>
        vq_root blk = Some ffi \<longrightarrow>
          GetFixedFileVersion (construct os ind storage (VersionOnly bVersionOnly)) =
            MakeVersionString (dwFileVersionMS ffi) (dwFileVersionLS ffi)
        \<and> GetFixedProductVersion (construct os ind storage (VersionOnly bVersionOnly)) =
            MakeVersionString (dwProductVersionMS ffi) (dwProductVersionLS ffi)
        \<and> GetFixedFileVersion_out (construct os ind storage (VersionOnly bVersionOnly))
            versionMS versionLS = (TRUE, dwFileVersionMS ffi, dwFileVersionLS ffi))"
proof (intro conjI impI)
  show "string_getters (construct os ind storage (VersionOnly bVersionOnly)) = replicate 11 []"
    using assms by (rule version_only_strings)
  show "os_calls (construct os ind storage (VersionOnly bVersionOnly)) =
         [Call_GetModuleFileName 0, Call_GetFileVersionInfoSize (os_GetModuleFileName os 0)] @
         (if os_GetFileVersionInfoSize os (os_GetModuleFileName os 0) = 0 then []
          else Call_GetFileVersionInfo (os_GetModuleFileName os 0)
                 (os_GetFileVersionInfoSize os (os_GetModuleFileName os 0)) #
               (case os_GetFileVersionInfo os (os_GetModuleFileName os 0)
                       (os_GetFileVersionInfoSize os (os_GetModuleFileName os 0)) of
                  None \<Rightarrow> []
                | Some blk \<Rightarrow> [Call_VerQueryValue sel_root]))"
    using assms by (rule version_only_calls)
next
  assume size: "os_GetFileVersionInfoSize os (os_GetModuleFileName os 0) \<noteq> 0"
    and load: "os_GetFileVersionInfo os (os_GetModuleFileName os 0)
          (os_GetFileVersionInfoSize os (os_GetModuleFileName os 0)) = Some blk"
    and root: "vq_root blk = Some ffi"
  let ?v = "construct os ind storage (VersionOnly bVersionOnly)"
  have found: "m_bVersionFound ?v \<noteq> 0"
    using construct_loaded_fixed(1) [of os storage "VersionOnly bVersionOnly" blk ind] size load
    by (simp add: version_only_file TRUE_def)
  have info: "m_FixedFileInfo ?v = ffi"
    using construct_loaded_fixed(2) [of os storage "VersionOnly bVersionOnly" blk ind] size load root
    by (simp add: version_only_file)
  from fixed_getters_found [OF found, of versionMS versionLS]
  show "GetFixedFileVersion ?v = MakeVersionString (dwFileVersionMS ffi) (dwFileVersionLS ffi)"
    and "GetFixedProductVersion ?v =
      MakeVersionString (dwProductVersionMS ffi) (dwProductVersionLS ffi)"
    and "GetFixedFileVersion_out ?v versionMS versionLS =
      (TRUE, dwFileVersionMS ffi, dwFileVersionLS ffi)"
    by (simp_all add: info)
qed

lemma ex_block_fields:
  "vq_root ex_block = Some ex_ffi"
  "vq_translation ex_block = (True, [\<lparr>wLanguage = 0x0409, wCodePage = 0x04B0\<rparr>])"
  "vq_root ex_block_0407 = Some ex_ffi"
  "vq_translation ex_block_0407 = (True, [\<lparr>wLanguage = 0x0407, wCodePage = 0x04B0\<rparr>])"
  "vq_string ex_block = ex_strings"
  "vq_string ex_block_0407 = ex_strings"
  by (simp_all add: ex_block_def ex_block_0407_def)

lemma ex_ffi_fields:
  "dwFileVersionMS ex_ffi = 0x00010002" "dwFileVersionLS ex_ffi = 0x00030004"
  "dwProductVersionMS ex_ffi = 0x00050006" "dwProductVersionLS ex_ffi = 0x00070000"
  by (simp_all add: ex_ffi_def)

lemma MakeVersionString_examples:
  "MakeVersionString 0x00010002 0x00030004 = ''1.2.3.4''"
  "MakeVersionString 0x00050006 0x00070000 = ''5.6.7''"
  by (simp_all add: MakeVersionString_def StringCchPrintf_def LOWORD_def HIWORD_def fmt_d_def
      digits_of.simps digit_char_def)

text \<open>
  An instance: the example resource (file version 1.2.3.4, product version
  5.6.7.0, a company name in its string table) read with the flag \<^verbatim>\<open>TRUE\<close>.
\<close>

theorem version_only_construction_witness:
  "TRUE \<noteq> FALSE
   \<and> string_getters (construct (ex_os (Some ex_block)) ex_ind (ex_storage 0) (VersionOnly TRUE)) =
       replicate 11 []
   \<and> os_calls (construct (ex_os (Some ex_block)) ex_ind (ex_storage 0) (VersionOnly TRUE)) =
       [Call_GetModuleFileName 0, Call_GetFileVersionInfoSize ''app.exe'',
        Call_GetFileVersionInfo ''app.exe'' 1024, Call_VerQueryValue sel_root]
   \<and> GetFixedFileVersion (construct (ex_os (Some ex_block)) ex_ind (ex_storage 0) (VersionOnly TRUE))
       = ''1.2.3.4''
   \<and> GetFixedProductVersion
        (construct (ex_os (Some ex_block)) ex_ind (ex_storage 0) (VersionOnly TRUE)) = ''5.6.7''
   \<and> GetFixedFileVersion_out
        (construct (ex_os (Some ex_block)) ex_ind (ex_storage 0) (VersionOnly TRUE)) 5 6 =
       (TRUE, 0x00010002, 0x00030004)"
proof -
  have neq: "TRUE \<noteq> FALSE" by (simp add: TRUE_def FALSE_def)
  have own: "os_GetModuleFileName (ex_os (Some ex_block)) 0 = ''app.exe''"
    by (simp add: ex_os_def)
  from version_only_construction [OF neq, of "ex_os (Some ex_block)" ex_ind "ex_storage 0"
      ex_block ex_ffi 5 6] neq
  show ?thesis
    by (simp add: own ex_os_fields ex_block_fields ex_ffi_fields MakeVersionString_examples)
qed

section \<open>The DLL version\<close>

declare ctor_init.simps [simp del]

lemma filter_calls_QueryStrings_language:
  assumes "\<And>s. \<not> P (Call_VerQueryValue s)"
  shows "filter P (os_calls (QueryStrings_language ind this)) = filter P (os_calls this)"
  using assms
  by (simp add: QueryStrings_language_def GetCodepageForLanguage_def log_call_def Let_def
      split: prod.splits bool.splits list.splits)

lemma filter_calls_QueryStrings:
  assumes "\<And>s. \<not> P (Call_VerQueryValue s)"
  shows "filter P (os_calls (QueryStrings ind this)) = filter P (os_calls this)"
  using assms filter_calls_QueryStrings_language [of P ind this]
  by (simp add: QueryStrings_def QueryValue_alt log_call_def Let_def)

lemma filter_calls_resource:
  assumes "\<And>s. \<not> P (Call_VerQueryValue s)" and "\<And>s. \<not> P (Call_GetFileVersionInfoSize s)"
    and "\<And>s n. \<not> P (Call_GetFileVersionInfo s n)"
  shows "filter P (os_calls (GetVersionInfo_resource os ind f this)) = filter P (os_calls this)"
  using assms
  by (simp add: GetVersionInfo_resource_def Let_def filter_calls_QueryStrings
      GetFixedVersionInfo_fields log_call_def split: option.splits)

lemma filter_calls_begin:
  assumes "\<And>h. \<not> P (Call_GetModuleFileName h)"
  shows "filter P (os_calls (GetVersionInfo_begin os (ctor_init os storage args))) = []"
  using assms
  by (cases args)
     (simp_all add: ctor_init.simps GetVersionInfo_begin_def Let_def log_call_def
       default_members_def assign_opt_def split: option.splits)

lemma dvi_resource:
  assumes "m_dvi this = zero_DLLVERSIONINFO" and "m_FixedFileInfo this = zero_VS_FIXEDFILEINFO"
  shows "m_dvi (GetVersionInfo_resource os ind f this) = zero_DLLVERSIONINFO
     \<lparr>dwMajorVersion :=
        ucast (HIWORD (dwFileVersionMS (m_FixedFileInfo (GetVersionInfo_resource os ind f this)))),
      dwMinorVersion :=
        ucast (LOWORD (dwFileVersionMS (m_FixedFileInfo (GetVersionInfo_resource os ind f this)))),
      dwBuildNumber :=
        ucast (HIWORD (dwFileVersionLS (m_FixedFileInfo (GetVersionInfo_resource os ind f this))))\<rparr>"
  using assms
  by (simp add: GetVersionInfo_resource_def Let_def QueryStrings_frame QueryStrings_language_frame
      GetFixedVersionInfo_fields log_call_def zero_ffi_fields HIWORD_def LOWORD_def
      zero_DLLVERSIONINFO_def split: option.splits)

lemma dll_no_export:
  assumes "m_bDllVersion this \<noteq> FALSE" and "os_LoadLibrary os f \<noteq> 0"
    and "os_GetProcAddress os (os_LoadLibrary os f) ''DllGetVersion'' = None"
  shows "m_dvi (GetVersionInfo_dll os f this) = m_dvi this"
  using assms by (simp add: GetVersionInfo_dll_def Let_def log_call_def FALSE_def)

lemma dll_calls:
  assumes "m_bDllVersion this \<noteq> FALSE" and "os_LoadLibrary os f \<noteq> 0"
  shows "os_calls (GetVersionInfo_dll os f this) =
     os_calls this @ [Call_LoadLibrary f, Call_GetProcAddress (os_LoadLibrary os f) ''DllGetVersion''] @
     (case os_GetProcAddress os (os_LoadLibrary os f) ''DllGetVersion'' of
        None \<Rightarrow> [] | Some DllGetVersion \<Rightarrow> [Call_DllGetVersion]) @
     [Call_FreeLibrary (os_LoadLibrary os f)]"
  using assms
  by (simp add: GetVersionInfo_dll_def Let_def log_call_def FALSE_def
      split: option.splits prod.splits)

lemma ctor_init_FileDll:
  "m_bDllVersion (ctor_init os storage (FileDll sz b)) = b"
  by (simp add: ctor_init.simps assign_opt_def default_members_def split: option.splits)

lemma resource_bDllVersion:
  "m_bDllVersion (GetVersionInfo_resource os ind f this) = m_bDllVersion this"
  by (simp add: GetVersionInfo_resource_def Let_def QueryStrings_frame QueryStrings_language_frame
      GetFixedVersionInfo_fields log_call_def split: option.splits)

lemma construct_dll_calls:
  assumes "b \<noteq> FALSE" and "os_LoadLibrary os (szFileName_of os storage (FileDll sz b)) \<noteq> 0"
  shows "filter is_FreeLibrary (os_calls (construct os ind storage (FileDll sz b))) =
           [Call_FreeLibrary (os_LoadLibrary os (szFileName_of os storage (FileDll sz b)))]"
    and "filter is_LoadLibrary (os_calls (construct os ind storage (FileDll sz b))) =
           [Call_LoadLibrary (szFileName_of os storage (FileDll sz b))]"
    and "last (os_calls (construct os ind storage (FileDll sz b))) =
           Call_FreeLibrary (os_LoadLibrary os (szFileName_of os storage (FileDll sz b)))"
proof -
  let ?f = "szFileName_of os storage (FileDll sz b)"
  let ?t = "GetVersionInfo_resource os ind ?f (GetVersionInfo_begin os (ctor_init os storage (FileDll sz b)))"
  have flag: "m_bDllVersion ?t \<noteq> FALSE"
    using assms(1) by (simp add: resource_bDllVersion GetVersionInfo_begin_fields ctor_init_FileDll)
  note calls = dll_calls [OF flag assms(2)]
  have free: "filter is_FreeLibrary (os_calls ?t) = []"
    by (simp add: filter_calls_resource filter_calls_begin)
  have load: "filter is_LoadLibrary (os_calls ?t) = []"
    by (simp add: filter_calls_resource filter_calls_begin)
  show "filter is_FreeLibrary (os_calls (construct os ind storage (FileDll sz b))) =
           [Call_FreeLibrary (os_LoadLibrary os ?f)]"
    by (simp add: construct_parts calls free split: option.splits)
  show "filter is_LoadLibrary (os_calls (construct os ind storage (FileDll sz b))) =
           [Call_LoadLibrary ?f]"
    by (simp add: construct_parts calls load split: option.splits)
  show "last (os_calls (construct os ind storage (FileDll sz b))) =
           Call_FreeLibrary (os_LoadLibrary os ?f)"
    by (simp add: construct_parts calls)
qed

lemma construct_dll_no_export:
  assumes "b \<noteq> FALSE" and "os_LoadLibrary os (szFileName_of os storage (FileDll sz b)) \<noteq> 0"
    and "os_GetProcAddress os (os_LoadLibrary os (szFileName_of os storage (FileDll sz b)))
           ''DllGetVersion'' = None"
  shows "m_dvi (construct os ind storage (FileDll sz b)) = zero_DLLVERSIONINFO
     \<lparr>dwMajorVersion :=
        ucast (HIWORD (dwFileVersionMS (m_FixedFileInfo (construct os ind storage (FileDll sz b))))),
      dwMinorVersion :=
        ucast (LOWORD (dwFileVersionMS (m_FixedFileInfo (construct os ind storage (FileDll sz b))))),
      dwBuildNumber :=
        ucast (HIWORD (dwFileVersionLS (m_FixedFileInfo (construct os ind storage (FileDll sz b)))))\<rparr>"
proof -
  let ?f = "szFileName_of os storage (FileDll sz b)"
  let ?s = "GetVersionInfo_begin os (ctor_init os storage (FileDll sz b))"
  let ?t = "GetVersionInfo_resource os ind ?f ?s"
  have flag: "m_bDllVersion ?t \<noteq> FALSE"
    using assms(1) by (simp add: resource_bDllVersion GetVersionInfo_begin_fields ctor_init_FileDll)
  have "m_dvi (construct os ind storage (FileDll sz b)) = m_dvi ?t"
    by (simp add: construct_parts dll_no_export [OF flag assms(2,3)])
  moreover have "m_FixedFileInfo (construct os ind storage (FileDll sz b)) = m_FixedFileInfo ?t"
    by (simp add: construct_parts GetVersionInfo_dll_frame)
  moreover note dvi_resource [of ?s os ind ?f]
  ultimately show ?thesis
    by (simp add: GetVersionInfo_begin_fields)
qed

lemma zero_dvi_from_zero_ffi:
  "zero_DLLVERSIONINFO
     \<lparr>dwMajorVersion := ucast (HIWORD (dwFileVersionMS zero_VS_FIXEDFILEINFO)),
      dwMinorVersion := ucast (LOWORD (dwFileVersionMS zero_VS_FIXEDFILEINFO)),
      dwBuildNumber := ucast (HIWORD (dwFileVersionLS zero_VS_FIXEDFILEINFO))\<rparr> =
   zero_DLLVERSIONINFO"
  by (simp add: zero_ffi_fields HIWORD_def LOWORD_def zero_DLLVERSIONINFO_def)

text \<open>
  C7, as the code has it. For every construction that asks for the DLL version
  (\<open>bDllVersion\<close> not \<^verbatim>\<open>FALSE\<close>) of a file that loads as a module, the handle is
  released exactly once, by the last call made, whether or not the symbol is
  found and whatever the version call answers. When the module does not export
  \<^verbatim>\<open>DllGetVersion\<close>, the structure \<^verbatim>\<open>m_dvi\<close> has \<^verbatim>\<open>cbSize\<close> and
  \<^verbatim>\<open>dwPlatformID\<close> 0, but its major, minor and build numbers are the three
  words \<^verbatim>\<open>GetFixedVersionInfo\<close> copied from the fixed file version (lines
  409-411): it is zero-valued when the file has no version resource, not in
  general.
\<close>

theorem dll_version_without_export:
  assumes "bDllVersion \<noteq> FALSE"
    and "os_LoadLibrary os (szFileName_of os storage (FileDll sz bDllVersion)) \<noteq> 0"
  shows "filter is_FreeLibrary (os_calls (construct os ind storage (FileDll sz bDllVersion))) =
           [Call_FreeLibrary (os_LoadLibrary os (szFileName_of os storage (FileDll sz bDllVersion)))]
     \<and> last (os_calls (construct os ind storage (FileDll sz bDllVersion))) =
           Call_FreeLibrary (os_LoadLibrary os (szFileName_of os storage (FileDll sz bDllVersion)))
     \<and> (os_GetProcAddress os
           (os_LoadLibrary os (szFileName_of os storage (FileDll sz bDllVersion)))
           ''DllGetVersion'' = None \<longrightarrow>
         m_dvi (construct os ind storage (FileDll sz bDllVersion)) = zero_DLLVERSIONINFO
           \<lparr>dwMajorVersion := ucast (HIWORD (dwFileVersionMS
              (m_FixedFileInfo (construct os ind storage (FileDll sz bDllVersion))))),
            dwMinorVersion := ucast (LOWORD (dwFileVersionMS
              (m_FixedFileInfo (construct os ind storage (FileDll sz bDllVersion))))),
            dwBuildNumber := ucast (HIWORD (dwFileVersionLS
              (m_FixedFileInfo (construct os ind storage (FileDll sz bDllVersion)))))\<rparr>
         \<and> (os_GetFileVersionInfoSize os (szFileName_of os storage (FileDll sz bDllVersion)) = 0 \<longrightarrow>
              m_dvi (construct os ind storage (FileDll sz bDllVersion)) = zero_DLLVERSIONINFO))"
proof (intro conjI impI)
  show "filter is_FreeLibrary (os_calls (construct os ind storage (FileDll sz bDllVersion))) =
           [Call_FreeLibrary (os_LoadLibrary os (szFileName_of os storage (FileDll sz bDllVersion)))]"
    using assms by (rule construct_dll_calls(1))
  show "last (os_calls (construct os ind storage (FileDll sz bDllVersion))) =
           Call_FreeLibrary (os_LoadLibrary os (szFileName_of os storage (FileDll sz bDllVersion)))"
    using assms by (rule construct_dll_calls(3))
next
  assume none: "os_GetProcAddress os
           (os_LoadLibrary os (szFileName_of os storage (FileDll sz bDllVersion)))
           ''DllGetVersion'' = None"
  from assms none
  show dvi: "m_dvi (construct os ind storage (FileDll sz bDllVersion)) = zero_DLLVERSIONINFO
           \<lparr>dwMajorVersion := ucast (HIWORD (dwFileVersionMS
              (m_FixedFileInfo (construct os ind storage (FileDll sz bDllVersion))))),
            dwMinorVersion := ucast (LOWORD (dwFileVersionMS
              (m_FixedFileInfo (construct os ind storage (FileDll sz bDllVersion))))),
            dwBuildNumber := ucast (HIWORD (dwFileVersionLS
              (m_FixedFileInfo (construct os ind storage (FileDll sz bDllVersion)))))\<rparr>"
    by (rule construct_dll_no_export)
  assume "os_GetFileVersionInfoSize os (szFileName_of os storage (FileDll sz bDllVersion)) = 0"
  then have "m_FixedFileInfo (construct os ind storage (FileDll sz bDllVersion)) =
      zero_VS_FIXEDFILEINFO"
    by (rule construct_absent(3))
  with dvi show "m_dvi (construct os ind storage (FileDll sz bDllVersion)) = zero_DLLVERSIONINFO"
    by (simp add: zero_dvi_from_zero_ffi)
qed

section \<open>The language and the codepage\<close>

lemma length_hex_WORD:
  assumes "n < 65536"
  shows "length (zero_pad 4 (digits_of 16 upper n)) = 4"
proof -
  have "length (digits_of 16 upper n) \<le> 4"
    by (rule length_digits_of) (use assms in simp_all)
  then show ?thesis by (simp add: zero_pad_def)
qed

lemma StringCchPrintf_hex_WORD:
  "StringCchPrintf 19 (fmt_04x (unat (w :: WORD))) = fmt_04x (unat w)"
  "StringCchPrintf 19 (fmt_4_4X (unat (w :: WORD))) = fmt_4_4X (unat w)"
  "length (fmt_04x (unat (w :: WORD))) = 4"
  "length (fmt_4_4X (unat (w :: WORD))) = 4"
  using length_hex_WORD [OF unat_WORD_bound, of False w]
    length_hex_WORD [OF unat_WORD_bound, of True w]
  by (simp_all add: StringCchPrintf_def fmt_04x_def fmt_4_4X_def)

lemma loop_found: "GetCodepageForLanguage_loop tbl lang i TRUE cp = (TRUE, cp)"
  by (subst GetCodepageForLanguage_loop.simps) (simp add: TRUE_def)

lemma loop_step:
  "GetCodepageForLanguage_loop tbl lang i FALSE cp =
     (if i < length tbl then
        (if wLanguage (tbl ! i) = lang then (TRUE, wCodePage (tbl ! i))
         else GetCodepageForLanguage_loop tbl lang (i + 1) FALSE cp)
      else (FALSE, cp))"
  by (subst GetCodepageForLanguage_loop.simps) (simp add: loop_found FALSE_def)

lemma loop_find:
  "GetCodepageForLanguage_loop tbl lang i FALSE cp =
     (case find (\<lambda>e. wLanguage e = lang) (drop i tbl) of
        Some e \<Rightarrow> (TRUE, wCodePage e)
      | None \<Rightarrow> (FALSE, cp))"
proof (induction "length tbl - i" arbitrary: i)
  case 0
  then show ?case
    by (subst loop_step) simp
next
  case (Suc k)
  then have i: "i < length tbl" by simp
  then have d: "drop i tbl = tbl ! i # drop (Suc i) tbl"
    by (simp add: Cons_nth_drop_Suc)
  from Suc(2) have "k = length tbl - Suc i" by simp
  from Suc(1) [OF this] i show ?case
    by (subst loop_step) (simp add: d)
qed

lemma GetCodepageForLanguage_find:
  assumes "m_pVffInfo this = Loaded blk"
  shows "(case find (\<lambda>e. wLanguage e = lang) (snd (vq_translation blk)) of
            Some e \<Rightarrow> fst (GetCodepageForLanguage this lang cp) = TRUE
                    \<and> fst (snd (GetCodepageForLanguage this lang cp)) = wCodePage e
          | None \<Rightarrow> fst (GetCodepageForLanguage this lang cp) = FALSE
                    \<and> fst (snd (GetCodepageForLanguage this lang cp)) = cp)"
  using assms
  by (simp add: GetCodepageForLanguage_def Let_def log_call_def VerQueryValue_translation_def
      loop_find split: option.splits prod.splits)

lemma language_by_id:
  assumes "m_wLanguage this \<noteq> 0" and "m_pVffInfo this = Loaded blk"
  shows "m_strLanguage (QueryStrings_language ind this) = fmt_04x (unat (m_wLanguage this))"
    and "m_strCodepage (QueryStrings_language ind this) =
           fmt_04x (unat (case find (\<lambda>e. wLanguage e = m_wLanguage this) (snd (vq_translation blk)) of
                            Some e \<Rightarrow> wCodePage e | None \<Rightarrow> ind_codepage ind))"
  using assms
  by (simp_all add: QueryStrings_language_def GetCodepageForLanguage_def Let_def log_call_def
      VerQueryValue_translation_def loop_find StringCchPrintf_hex_WORD
      split: option.splits prod.splits)

lemma language_first_entry:
  assumes "m_wLanguage this = 0" and "m_strLanguage this = [] \<or> m_strCodepage this = []"
    and "m_pVffInfo this = Loaded blk" and "vq_translation blk = (True, e # rest)"
  shows "m_strLanguage (QueryStrings_language ind this) = fmt_4_4X (unat (wLanguage e))"
    and "m_strCodepage (QueryStrings_language ind this) = fmt_4_4X (unat (wCodePage e))"
  using assms
  by (auto simp add: QueryStrings_language_def Let_def log_call_def
      VerQueryValue_translation_def StringCchPrintf_hex_WORD)

lemma language_supplied:
  assumes "m_wLanguage this = 0" and "m_strLanguage this \<noteq> []" and "m_strCodepage this \<noteq> []"
  shows "QueryStrings_language ind this = this"
  using assms by (simp add: QueryStrings_language_def)

lemma construct_loaded_full:
  assumes "os_GetFileVersionInfoSize os (szFileName_of os storage args) \<noteq> 0"
    and "os_GetFileVersionInfo os (szFileName_of os storage args)
           (os_GetFileVersionInfoSize os (szFileName_of os storage args)) = Some blk"
    and "m_bVersionOnly (ctor_init os storage args) = FALSE"
  obtains this where "m_pVffInfo this = Loaded blk"
    and "m_wLanguage this = m_wLanguage (ctor_init os storage args)"
    and "m_strLanguage this = m_strLanguage (ctor_init os storage args)"
    and "m_strCodepage this = m_strCodepage (ctor_init os storage args)"
    and "os_calls this = os_calls (GetVersionInfo_begin os (ctor_init os storage args)) @
           [Call_GetFileVersionInfoSize (szFileName_of os storage args),
            Call_GetFileVersionInfo (szFileName_of os storage args)
              (os_GetFileVersionInfoSize os (szFileName_of os storage args)),
            Call_VerQueryValue sel_root]"
    and "m_strLanguage (construct os ind storage args) =
           m_strLanguage (QueryStrings_language ind this)"
    and "m_strCodepage (construct os ind storage args) =
           m_strCodepage (QueryStrings_language ind this)"
    and "string_getters (construct os ind storage args) =
           map (queried_text (Loaded blk) (m_strLanguage (construct os ind storage args))
                  (m_strCodepage (construct os ind storage args))) field_names"
proof -
  let ?f = "szFileName_of os storage args"
  let ?obj = "GetFixedVersionInfo
      ((log_call (Call_GetFileVersionInfo ?f (os_GetFileVersionInfoSize os ?f))
         ((log_call (Call_GetFileVersionInfoSize ?f)
            (GetVersionInfo_begin os (ctor_init os storage args)))
            \<lparr>m_bVersionFound := TRUE, m_pVffInfo := Allocated (os_GetFileVersionInfoSize os ?f)\<rparr>))
       \<lparr>m_pVffInfo := Loaded blk\<rparr>)"
  have v: "construct os ind storage args = GetVersionInfo_dll os ?f (QueryStrings ind ?obj)"
    using assms(3)
    by (simp add: construct_parts resource_loaded [OF assms(1,2)] Let_def
        GetVersionInfo_begin_fields)
  show thesis
  proof (rule that [of ?obj])
    show "m_pVffInfo ?obj = Loaded blk"
      by (simp add: GetFixedVersionInfo_fields)
    show "m_wLanguage ?obj = m_wLanguage (ctor_init os storage args)"
      by (simp add: GetFixedVersionInfo_fields log_call_def GetVersionInfo_begin_fields)
    show "m_strLanguage ?obj = m_strLanguage (ctor_init os storage args)"
      by (simp add: GetFixedVersionInfo_fields log_call_def GetVersionInfo_begin_fields)
    show "m_strCodepage ?obj = m_strCodepage (ctor_init os storage args)"
      by (simp add: GetFixedVersionInfo_fields log_call_def GetVersionInfo_begin_fields)
    show "os_calls ?obj = os_calls (GetVersionInfo_begin os (ctor_init os storage args)) @
           [Call_GetFileVersionInfoSize ?f,
            Call_GetFileVersionInfo ?f (os_GetFileVersionInfoSize os ?f),
            Call_VerQueryValue sel_root]"
      by (simp add: GetFixedVersionInfo_fields log_call_def)
    show l: "m_strLanguage (construct os ind storage args) =
           m_strLanguage (QueryStrings_language ind ?obj)"
      by (simp only: v GetVersionInfo_dll_frame QueryStrings_frame)
    show c: "m_strCodepage (construct os ind storage args) =
           m_strCodepage (QueryStrings_language ind ?obj)"
      by (simp only: v GetVersionInfo_dll_frame QueryStrings_frame)
    have "m_pVffInfo (QueryStrings_language ind ?obj) = Loaded blk"
      by (simp add: QueryStrings_language_frame GetFixedVersionInfo_fields)
    then show "string_getters (construct os ind storage args) =
           map (queried_text (Loaded blk) (m_strLanguage (construct os ind storage args))
                  (m_strCodepage (construct os ind storage args))) field_names"
      by (simp only: l c) (simp only: v GetVersionInfo_dll_frame QueryStrings_getters)
  qed
qed

lemma selector_fits:
  assumes "length lang = 4" and "length cp = 4" and "szId \<in> set field_names"
  shows "StringCchPrintf 255 (sel_string lang cp szId) = sel_string lang cp szId"
  using assms by (auto simp: StringCchPrintf_def sel_string_def field_names_def)

lemma queried_text_None:
  assumes "length lang = 4" and "length cp = 4"
    and "\<forall>szId \<in> set field_names. vq_string blk (sel_string lang cp szId) = None"
  shows "map (queried_text (Loaded blk) lang cp) field_names = replicate 11 []"
proof -
  have "queried_text (Loaded blk) lang cp szId = []" if "szId \<in> set field_names" for szId
    using that assms
    by (simp add: queried_text_def selector_fits VerQueryValue_string_def)
  then have "map (queried_text (Loaded blk) lang cp) field_names = map (\<lambda>_. []) field_names"
    by simp
  then show ?thesis by (simp add: field_names_def numeral_eq_Suc)
qed

lemma TRUE_neq_FALSE: "TRUE \<noteq> FALSE"
  by (simp add: TRUE_def FALSE_def)

lemma hex_examples:
  "fmt_4_4X 0x0409 = ''0409''"
  "fmt_4_4X 0x04B0 = ''04B0''"
  "fmt_04x 0x0409 = ''0409''"
  "fmt_04x 0x04B0 = ''04b0''"
  "fmt_04x 0xCCCC = ''cccc''"
  by (simp_all add: fmt_4_4X_def fmt_04x_def zero_pad_def digits_of.simps digit_char_def)

lemma ex_strings_company:
  "map (queried_text (Loaded ex_block) ''0409'' ''04B0'') field_names =
     [''Acme Corp'', [], [], [], [], [], [], [], [], [], []]"
  "map (queried_text (Loaded ex_block) ''0409'' ''04b0'') field_names =
     [''Acme Corp'', [], [], [], [], [], [], [], [], [], []]"
  "map (queried_text (Loaded ex_block_0407) ''0409'' ''04b0'') field_names =
     [''Acme Corp'', [], [], [], [], [], [], [], [], [], []]"
  by (simp_all add: queried_text_def VerQueryValue_string_def StringCchPrintf_def sel_string_def
      bslash_def ex_strings_def ex_block_fields trim_ws_def is_space_def field_names_def)

lemma ex_strings_cccc:
  "\<forall>szId \<in> set field_names. vq_string ex_block_0407 (sel_string ''0409'' ''cccc'' szId) = None"
  by (simp add: sel_string_def bslash_def ex_strings_def ex_block_fields field_names_def)

lemma ctor_init_Language:
  "m_wLanguage (ctor_init os storage (Language wLang)) = wLang"
  "m_bVersionOnly (ctor_init os storage (Language wLang)) = FALSE"
  by (simp_all add: ctor_init.simps default_members_def)

lemma ctor_init_FileLangCodepage:
  "m_wLanguage (ctor_init os storage (FileLangCodepage sf sl sc)) = 0"
  "m_bVersionOnly (ctor_init os storage (FileLangCodepage sf sl sc)) = FALSE"
  "m_strLanguage (ctor_init os storage (FileLangCodepage sf sl sc)) =
     (case sl of None \<Rightarrow> [] | Some s \<Rightarrow> s)"
  "m_strCodepage (ctor_init os storage (FileLangCodepage sf sl sc)) =
     (case sc of None \<Rightarrow> [] | Some s \<Rightarrow> s)"
  by (simp_all add: ctor_init.simps default_members_def assign_opt_def split: option.splits)

lemma ctor_init_FileDll_language:
  "m_wLanguage (ctor_init os storage (FileDll sf b)) = 0"
  "m_bVersionOnly (ctor_init os storage (FileDll sf b)) = FALSE"
  "m_strLanguage (ctor_init os storage (FileDll sf b)) = []"
  "m_strCodepage (ctor_init os storage (FileDll sf b)) = []"
  by (simp_all add: ctor_init.simps default_members_def assign_opt_def split: option.splits)

lemma construct_first_entry:
  assumes "os_GetFileVersionInfoSize os (szFileName_of os storage args) \<noteq> 0"
    and "os_GetFileVersionInfo os (szFileName_of os storage args)
           (os_GetFileVersionInfoSize os (szFileName_of os storage args)) = Some blk"
    and "m_bVersionOnly (ctor_init os storage args) = FALSE"
    and "m_wLanguage (ctor_init os storage args) = 0"
    and "m_strLanguage (ctor_init os storage args) = [] \<or>
         m_strCodepage (ctor_init os storage args) = []"
    and "vq_translation blk = (True, e # rest)"
  shows "m_strLanguage (construct os ind storage args) = fmt_4_4X (unat (wLanguage e))"
    and "m_strCodepage (construct os ind storage args) = fmt_4_4X (unat (wCodePage e))"
proof -
  from construct_loaded_full [OF assms(1-3), of ind]
  obtain obj where obj: "m_pVffInfo obj = Loaded blk"
      "m_wLanguage obj = m_wLanguage (ctor_init os storage args)"
      "m_strLanguage obj = m_strLanguage (ctor_init os storage args)"
      "m_strCodepage obj = m_strCodepage (ctor_init os storage args)"
      "m_strLanguage (construct os ind storage args) =
         m_strLanguage (QueryStrings_language ind obj)"
      "m_strCodepage (construct os ind storage args) =
         m_strCodepage (QueryStrings_language ind obj)"
    by metis
  have "m_wLanguage obj = 0" and "m_strLanguage obj = [] \<or> m_strCodepage obj = []"
    using obj(2-4) assms(4,5) by simp_all
  from language_first_entry [OF this obj(1) assms(6), of ind] obj(5,6)
  show "m_strLanguage (construct os ind storage args) = fmt_4_4X (unat (wLanguage e))"
    and "m_strCodepage (construct os ind storage args) = fmt_4_4X (unat (wCodePage e))"
    by simp_all
qed

lemma construct_supplied_pair:
  assumes "os_GetFileVersionInfoSize os (szFileName_of os storage args) \<noteq> 0"
    and "os_GetFileVersionInfo os (szFileName_of os storage args)
           (os_GetFileVersionInfoSize os (szFileName_of os storage args)) = Some blk"
    and "m_bVersionOnly (ctor_init os storage args) = FALSE"
    and "m_wLanguage (ctor_init os storage args) = 0"
    and "m_strLanguage (ctor_init os storage args) \<noteq> []"
    and "m_strCodepage (ctor_init os storage args) \<noteq> []"
  shows "m_strLanguage (construct os ind storage args) = m_strLanguage (ctor_init os storage args)"
    and "m_strCodepage (construct os ind storage args) = m_strCodepage (ctor_init os storage args)"
proof -
  from construct_loaded_full [OF assms(1-3), of ind]
  obtain obj where obj: "m_pVffInfo obj = Loaded blk"
      "m_wLanguage obj = m_wLanguage (ctor_init os storage args)"
      "m_strLanguage obj = m_strLanguage (ctor_init os storage args)"
      "m_strCodepage obj = m_strCodepage (ctor_init os storage args)"
      "m_strLanguage (construct os ind storage args) =
         m_strLanguage (QueryStrings_language ind obj)"
      "m_strCodepage (construct os ind storage args) =
         m_strCodepage (QueryStrings_language ind obj)"
    by metis
  have "QueryStrings_language ind obj = obj"
    using obj(2-4) assms(4-6) by (intro language_supplied) simp_all
  with obj(3-6)
  show "m_strLanguage (construct os ind storage args) = m_strLanguage (ctor_init os storage args)"
    and "m_strCodepage (construct os ind storage args) = m_strCodepage (ctor_init os storage args)"
    by simp_all
qed

lemma construct_full_getters:
  assumes "os_GetFileVersionInfoSize os (szFileName_of os storage args) \<noteq> 0"
    and "os_GetFileVersionInfo os (szFileName_of os storage args)
           (os_GetFileVersionInfoSize os (szFileName_of os storage args)) = Some blk"
    and "m_bVersionOnly (ctor_init os storage args) = FALSE"
  shows "string_getters (construct os ind storage args) =
           map (queried_text (Loaded blk) (m_strLanguage (construct os ind storage args))
                  (m_strCodepage (construct os ind storage args))) field_names"
  using construct_loaded_full [OF assms, of ind] by metis

lemma construct_by_language:
  assumes "wLang \<noteq> 0"
    and "os_GetFileVersionInfoSize os (szFileName_of os storage (Language wLang)) \<noteq> 0"
    and "os_GetFileVersionInfo os (szFileName_of os storage (Language wLang))
           (os_GetFileVersionInfoSize os (szFileName_of os storage (Language wLang))) = Some blk"
  shows "m_strLanguage (construct os ind storage (Language wLang)) = fmt_04x (unat wLang)"
    and "m_strCodepage (construct os ind storage (Language wLang)) =
           fmt_04x (unat (case find (\<lambda>e. wLanguage e = wLang) (snd (vq_translation blk)) of
                            Some e \<Rightarrow> wCodePage e | None \<Rightarrow> ind_codepage ind))"
proof -
  from construct_loaded_full [OF assms(2,3) ctor_init_Language(2), of ind]
  obtain obj where obj: "m_pVffInfo obj = Loaded blk"
      "m_wLanguage obj = m_wLanguage (ctor_init os storage (Language wLang))"
      "m_strLanguage (construct os ind storage (Language wLang)) =
         m_strLanguage (QueryStrings_language ind obj)"
      "m_strCodepage (construct os ind storage (Language wLang)) =
         m_strCodepage (QueryStrings_language ind obj)"
    by metis
  have l: "m_wLanguage obj = wLang"
    using obj(2) by (simp add: ctor_init_Language)
  with assms(1) have "m_wLanguage obj \<noteq> 0" by simp
  from language_by_id [OF this obj(1), of ind] obj(3,4) l
  show "m_strLanguage (construct os ind storage (Language wLang)) = fmt_04x (unat wLang)"
    and "m_strCodepage (construct os ind storage (Language wLang)) =
           fmt_04x (unat (case find (\<lambda>e. wLanguage e = wLang) (snd (vq_translation blk)) of
                            Some e \<Rightarrow> wCodePage e | None \<Rightarrow> ind_codepage ind))"
    by simp_all
qed

lemma trim_ws_Nil: "trim_ws [] = []"
  by (simp add: trim_ws_def)

lemma queried_text_full_key:
  assumes "length lang = 4" and "length cp = 4"
  shows "map (queried_text (Loaded blk) lang cp) field_names =
     map (\<lambda>szId. case vq_string blk (sel_string lang cp szId) of
                    Some s \<Rightarrow> trim_ws s | None \<Rightarrow> []) field_names"
proof (rule map_cong [OF refl])
  fix szId assume "szId \<in> set field_names"
  from selector_fits [OF assms this]
  show "queried_text (Loaded blk) lang cp szId =
      (case vq_string blk (sel_string lang cp szId) of Some s \<Rightarrow> trim_ws s | None \<Rightarrow> [])"
    by (simp add: queried_text_def VerQueryValue_string_def trim_ws_Nil split: option.splits)
qed

text \<open>
  C4, as the code has it. For every construction with full information and
  language ID zero whose resource is found and loaded: when the language
  string or the codepage string is empty (line 334: either of them, so also
  when only one of the two was supplied) and the translation query succeeds
  with a first entry \<open>e\<close>, the active pair is that entry, each word rendered by
  \<^verbatim>\<open>%4.4X\<close>, and each of the eleven string getters returns the value stored
  under the key of that pair and the getter's field name, with the
  surrounding whitespace trimmed, or the empty string when nothing is stored
  there. When both strings are non-empty, no entry is selected: the pair is
  kept as supplied.
\<close>

theorem first_translation_entry:
  assumes "os_GetFileVersionInfoSize os (szFileName_of os storage args) \<noteq> 0"
    and "os_GetFileVersionInfo os (szFileName_of os storage args)
           (os_GetFileVersionInfoSize os (szFileName_of os storage args)) = Some blk"
    and "m_bVersionOnly (ctor_init os storage args) = FALSE"
    and "m_wLanguage (ctor_init os storage args) = 0"
  shows "(m_strLanguage (ctor_init os storage args) = [] \<or>
          m_strCodepage (ctor_init os storage args) = [] \<longrightarrow>
          vq_translation blk = (True, e # rest) \<longrightarrow>
            m_strLanguage (construct os ind storage args) = fmt_4_4X (unat (wLanguage e))
          \<and> m_strCodepage (construct os ind storage args) = fmt_4_4X (unat (wCodePage e))
          \<and> string_getters (construct os ind storage args) =
              map (\<lambda>szId.
                     case vq_string blk (sel_string (fmt_4_4X (unat (wLanguage e)))
                            (fmt_4_4X (unat (wCodePage e))) szId) of
                       Some s \<Rightarrow> trim_ws s
                     | None \<Rightarrow> []) field_names)
     \<and> (m_strLanguage (ctor_init os storage args) \<noteq> [] \<and>
        m_strCodepage (ctor_init os storage args) \<noteq> [] \<longrightarrow>
            m_strLanguage (construct os ind storage args) =
              m_strLanguage (ctor_init os storage args)
          \<and> m_strCodepage (construct os ind storage args) =
              m_strCodepage (ctor_init os storage args))"
proof (intro conjI impI)
  assume either: "m_strLanguage (ctor_init os storage args) = [] \<or>
      m_strCodepage (ctor_init os storage args) = []"
    and table: "vq_translation blk = (True, e # rest)"
  note pair = construct_first_entry [OF assms either table, of ind]
  show "m_strLanguage (construct os ind storage args) = fmt_4_4X (unat (wLanguage e))"
    and "m_strCodepage (construct os ind storage args) = fmt_4_4X (unat (wCodePage e))"
    by (rule pair)+
  from construct_full_getters [OF assms(1-3), of ind]
  show "string_getters (construct os ind storage args) =
      map (\<lambda>szId.
             case vq_string blk (sel_string (fmt_4_4X (unat (wLanguage e)))
                    (fmt_4_4X (unat (wCodePage e))) szId) of
               Some s \<Rightarrow> trim_ws s
             | None \<Rightarrow> []) field_names"
    by (simp only: pair queried_text_full_key [OF StringCchPrintf_hex_WORD(4)
          StringCchPrintf_hex_WORD(4)])
next
  assume both: "m_strLanguage (ctor_init os storage args) \<noteq> [] \<and>
      m_strCodepage (ctor_init os storage args) \<noteq> []"
  then have l: "m_strLanguage (ctor_init os storage args) \<noteq> []"
    and c: "m_strCodepage (ctor_init os storage args) \<noteq> []" by simp_all
  from construct_supplied_pair [OF assms l c, of ind]
  show "m_strLanguage (construct os ind storage args) = m_strLanguage (ctor_init os storage args)"
    and "m_strCodepage (construct os ind storage args) = m_strCodepage (ctor_init os storage args)"
    by simp_all
qed

section \<open>Instances\<close>

lemma ex_loaded:
  "os_GetFileVersionInfoSize (ex_os blk) ''app.exe'' \<noteq> 0"
  by (simp add: ex_os_fields)

lemma ex_stored_company:
  "map (\<lambda>szId. case ex_strings (sel_string ''0409'' ''04B0'' szId) of
                  Some s \<Rightarrow> trim_ws s | None \<Rightarrow> []) field_names =
     [''Acme Corp'', [], [], [], [], [], [], [], [], [], []]"
  by (simp add: sel_string_def bslash_def ex_strings_def trim_ws_def is_space_def
      field_names_def)

text \<open>
  Two instances on the example resource: a construction that supplies no
  language and no codepage, and one that supplies both.
\<close>

theorem first_translation_entry_witness:
  "m_strLanguage (construct (ex_os (Some ex_block)) ex_ind (ex_storage 0)
      (FileDll (Some ''app.exe'') FALSE)) = ''0409''
   \<and> m_strCodepage (construct (ex_os (Some ex_block)) ex_ind (ex_storage 0)
      (FileDll (Some ''app.exe'') FALSE)) = ''04B0''
   \<and> string_getters (construct (ex_os (Some ex_block)) ex_ind (ex_storage 0)
      (FileDll (Some ''app.exe'') FALSE)) = [''Acme Corp'', [], [], [], [], [], [], [], [], [], []]
   \<and> m_strLanguage (construct (ex_os (Some ex_block)) ex_ind (ex_storage 0)
      (FileLangCodepage (Some ''app.exe'') (Some ''0409'') (Some ''04b0''))) = ''0409''
   \<and> m_strCodepage (construct (ex_os (Some ex_block)) ex_ind (ex_storage 0)
      (FileLangCodepage (Some ''app.exe'') (Some ''0409'') (Some ''04b0''))) = ''04b0''"
proof -
  let ?os = "ex_os (Some ex_block)"
  let ?a = "FileDll (Some ''app.exe'') FALSE"
  let ?b = "FileLangCodepage (Some ''app.exe'') (Some ''0409'') (Some ''04b0'')"
  have a: "os_GetFileVersionInfoSize ?os (szFileName_of ?os (ex_storage 0) ?a) \<noteq> 0"
    "os_GetFileVersionInfo ?os (szFileName_of ?os (ex_storage 0) ?a)
       (os_GetFileVersionInfoSize ?os (szFileName_of ?os (ex_storage 0) ?a)) = Some ex_block"
    "m_bVersionOnly (ctor_init ?os (ex_storage 0) ?a) = FALSE"
    "m_wLanguage (ctor_init ?os (ex_storage 0) ?a) = 0"
    by (simp_all add: ex_file_own ex_os_fields ctor_init_FileDll_language)
  have b: "os_GetFileVersionInfoSize ?os (szFileName_of ?os (ex_storage 0) ?b) \<noteq> 0"
    "os_GetFileVersionInfo ?os (szFileName_of ?os (ex_storage 0) ?b)
       (os_GetFileVersionInfoSize ?os (szFileName_of ?os (ex_storage 0) ?b)) = Some ex_block"
    "m_bVersionOnly (ctor_init ?os (ex_storage 0) ?b) = FALSE"
    "m_wLanguage (ctor_init ?os (ex_storage 0) ?b) = 0"
    by (simp_all add: ex_file_own ex_os_fields ctor_init_FileLangCodepage)
  from first_translation_entry [OF a, of "\<lparr>wLanguage = 0x0409, wCodePage = 0x04B0\<rparr>" "[]" ex_ind]
  have t1: "m_strLanguage (construct ?os ex_ind (ex_storage 0) ?a) = ''0409''
      \<and> m_strCodepage (construct ?os ex_ind (ex_storage 0) ?a) = ''04B0''
      \<and> string_getters (construct ?os ex_ind (ex_storage 0) ?a) =
          [''Acme Corp'', [], [], [], [], [], [], [], [], [], []]"
    by (simp add: ctor_init_FileDll_language ex_block_fields hex_examples ex_stored_company)
  from first_translation_entry [OF b, of "\<lparr>wLanguage = 0x0409, wCodePage = 0x04B0\<rparr>" "[]" ex_ind]
  have t2: "m_strLanguage (construct ?os ex_ind (ex_storage 0) ?b) = ''0409''
      \<and> m_strCodepage (construct ?os ex_ind (ex_storage 0) ?b) = ''04b0''"
    by (simp add: ctor_init_FileLangCodepage)
  from t1 t2 show ?thesis by blast
qed

text \<open>
  C4 as stated fails where only the language is supplied: the construction is
  given the language string \<open>0407\<close> and no codepage, and the first entry
  (0409, 04B0) is selected all the same.
\<close>

theorem first_translation_entry_counterexample:
  "m_strLanguage (ctor_init (ex_os (Some ex_block)) (ex_storage 0)
      (FileLangCodepage (Some ''app.exe'') (Some ''0407'') None)) = ''0407''
   \<and> m_strLanguage (construct (ex_os (Some ex_block)) ex_ind (ex_storage 0)
      (FileLangCodepage (Some ''app.exe'') (Some ''0407'') None)) = ''0409''
   \<and> m_strCodepage (construct (ex_os (Some ex_block)) ex_ind (ex_storage 0)
      (FileLangCodepage (Some ''app.exe'') (Some ''0407'') None)) = ''04B0''
   \<and> string_getters (construct (ex_os (Some ex_block)) ex_ind (ex_storage 0)
      (FileLangCodepage (Some ''app.exe'') (Some ''0407'') None)) =
       [''Acme Corp'', [], [], [], [], [], [], [], [], [], []]"
proof -
  let ?os = "ex_os (Some ex_block)"
  let ?a = "FileLangCodepage (Some ''app.exe'') (Some ''0407'') None"
  have a: "os_GetFileVersionInfoSize ?os (szFileName_of ?os (ex_storage 0) ?a) \<noteq> 0"
    "os_GetFileVersionInfo ?os (szFileName_of ?os (ex_storage 0) ?a)
       (os_GetFileVersionInfoSize ?os (szFileName_of ?os (ex_storage 0) ?a)) = Some ex_block"
    "m_bVersionOnly (ctor_init ?os (ex_storage 0) ?a) = FALSE"
    "m_wLanguage (ctor_init ?os (ex_storage 0) ?a) = 0"
    "m_strLanguage (ctor_init ?os (ex_storage 0) ?a) = [] \<or>
     m_strCodepage (ctor_init ?os (ex_storage 0) ?a) = []"
    "vq_translation ex_block = (True, [\<lparr>wLanguage = 0x0409, wCodePage = 0x04B0\<rparr>])"
    by (simp_all add: ex_file_own ex_os_fields ctor_init_FileLangCodepage ex_block_fields)
  from construct_first_entry [OF a, of ex_ind] construct_full_getters [OF a(1-3), of ex_ind]
  show ?thesis
    by (simp add: ctor_init_FileLangCodepage hex_examples ex_strings_company)
qed

text \<open>
  C5, at a failing input. The translation table lists only language 0407, the
  string table holds a company name under the key \<open>040904b0\<close>, and the object
  is constructed for language 0409. No entry matches and
  \<^verbatim>\<open>GetCodepageForLanguage\<close> returns \<^verbatim>\<open>FALSE\<close> without writing its
  reference, as the claim says. \<^verbatim>\<open>QueryStrings\<close> does not look at the
  \<^verbatim>\<open>BOOL\<close> and formats the local \<^verbatim>\<open>codepage\<close> (lines 326-331), which
  nothing has assigned: when it holds \<^verbatim>\<open>0x04B0\<close> the queries hit and the
  company name is returned, where the claim says the string fields stay
  empty; when it holds \<^verbatim>\<open>0xCCCC\<close>, on the same system and arguments, they
  miss.
\<close>

theorem unmatched_language_unassigned_codepage:
  "find (\<lambda>e. wLanguage e = 0x0409) (snd (vq_translation ex_block_0407)) = None
   \<and> GetCodepageForLanguage ((ex_storage 0)\<lparr>m_pVffInfo := Loaded ex_block_0407\<rparr>) 0x0409 0x04B0 =
       (FALSE, 0x04B0, log_call (Call_VerQueryValue sel_translation)
          ((ex_storage 0)\<lparr>m_pVffInfo := Loaded ex_block_0407\<rparr>))
   \<and> m_strCodepage (construct (ex_os (Some ex_block_0407)) (ex_ind\<lparr>ind_codepage := 0x04B0\<rparr>)
        (ex_storage 0) (Language 0x0409)) = ''04b0''
   \<and> string_getters (construct (ex_os (Some ex_block_0407)) (ex_ind\<lparr>ind_codepage := 0x04B0\<rparr>)
        (ex_storage 0) (Language 0x0409)) = [''Acme Corp'', [], [], [], [], [], [], [], [], [], []]
   \<and> m_strCodepage (construct (ex_os (Some ex_block_0407)) (ex_ind\<lparr>ind_codepage := 0xCCCC\<rparr>)
        (ex_storage 0) (Language 0x0409)) = ''cccc''
   \<and> string_getters (construct (ex_os (Some ex_block_0407)) (ex_ind\<lparr>ind_codepage := 0xCCCC\<rparr>)
        (ex_storage 0) (Language 0x0409)) = [[], [], [], [], [], [], [], [], [], [], []]"
proof -
  let ?os = "ex_os (Some ex_block_0407)"
  let ?hit = "ex_ind\<lparr>ind_codepage := 0x04B0\<rparr>" and ?miss = "ex_ind\<lparr>ind_codepage := 0xCCCC\<rparr>"
  have l: "(0x0409 :: WORD) \<noteq> 0" by simp
  have b: "os_GetFileVersionInfoSize ?os (szFileName_of ?os (ex_storage 0) (Language 0x0409)) \<noteq> 0"
    "os_GetFileVersionInfo ?os (szFileName_of ?os (ex_storage 0) (Language 0x0409))
       (os_GetFileVersionInfoSize ?os (szFileName_of ?os (ex_storage 0) (Language 0x0409))) =
     Some ex_block_0407"
    by (simp_all add: ex_file_own ex_os_fields)
  have none: "find (\<lambda>e. wLanguage e = 0x0409) (snd (vq_translation ex_block_0407)) = None"
    by (simp add: ex_block_fields)
  have p: "m_pVffInfo ((ex_storage 0)\<lparr>m_pVffInfo := Loaded ex_block_0407\<rparr>) = Loaded ex_block_0407"
    by simp
  from GetCodepageForLanguage_find [OF p, of "0x0409" "0x04B0"] none
  have g: "GetCodepageForLanguage ((ex_storage 0)\<lparr>m_pVffInfo := Loaded ex_block_0407\<rparr>)
      0x0409 0x04B0 =
       (FALSE, 0x04B0, log_call (Call_VerQueryValue sel_translation)
          ((ex_storage 0)\<lparr>m_pVffInfo := Loaded ex_block_0407\<rparr>))"
    by (simp add: GetCodepageForLanguage_def Let_def split: prod.splits)
  from construct_by_language [OF l b, of ?hit] none
  have hit: "m_strLanguage (construct ?os ?hit (ex_storage 0) (Language 0x0409)) = ''0409''"
    "m_strCodepage (construct ?os ?hit (ex_storage 0) (Language 0x0409)) = ''04b0''"
    by (simp_all add: hex_examples)
  from construct_by_language [OF l b, of ?miss] none
  have miss: "m_strLanguage (construct ?os ?miss (ex_storage 0) (Language 0x0409)) = ''0409''"
    "m_strCodepage (construct ?os ?miss (ex_storage 0) (Language 0x0409)) = ''cccc''"
    by (simp_all add: hex_examples)
  from construct_full_getters [OF b ctor_init_Language(2), of ?hit]
  have s1: "string_getters (construct ?os ?hit (ex_storage 0) (Language 0x0409)) =
      [''Acme Corp'', [], [], [], [], [], [], [], [], [], []]"
    by (simp add: hit ex_strings_company)
  have "map (queried_text (Loaded ex_block_0407) ''0409'' ''cccc'') field_names = replicate 11 []"
    by (rule queried_text_None [OF _ _ ex_strings_cccc]) simp_all
  with construct_full_getters [OF b ctor_init_Language(2), of ?miss]
  have s2: "string_getters (construct ?os ?miss (ex_storage 0) (Language 0x0409)) =
      [[], [], [], [], [], [], [], [], [], [], []]"
    by (simp add: miss numeral_eq_Suc)
  from none g hit(2) s1 miss(2) s2 show ?thesis by blast
qed

lemma ex_dvi:
  "zero_DLLVERSIONINFO
     \<lparr>dwMajorVersion := ucast (HIWORD (dwFileVersionMS ex_ffi)),
      dwMinorVersion := ucast (LOWORD (dwFileVersionMS ex_ffi)),
      dwBuildNumber := ucast (HIWORD (dwFileVersionLS ex_ffi))\<rparr> =
   \<lparr>cbSize = 0, dwMajorVersion = 1, dwMinorVersion = 2, dwBuildNumber = 3, dwPlatformID = 0\<rparr>"
  by (simp add: ex_ffi_fields HIWORD_def LOWORD_def zero_DLLVERSIONINFO_def)

text \<open>
  Two instances: \<open>app.exe\<close>, whose resource has file version 1.2.3.4, and
  \<open>plain.dll\<close>, which has no version resource. Neither exports the symbol.
\<close>

theorem dll_version_without_export_witness:
  "filter is_FreeLibrary (os_calls (construct (ex_os (Some ex_block)) ex_ind (ex_storage 0)
      (FileDll (Some ''app.exe'') TRUE))) = [Call_FreeLibrary 7]
   \<and> last (os_calls (construct (ex_os (Some ex_block)) ex_ind (ex_storage 0)
      (FileDll (Some ''app.exe'') TRUE))) = Call_FreeLibrary 7
   \<and> m_dvi (construct (ex_os (Some ex_block)) ex_ind (ex_storage 0)
      (FileDll (Some ''app.exe'') TRUE)) =
       \<lparr>cbSize = 0, dwMajorVersion = 1, dwMinorVersion = 2, dwBuildNumber = 3, dwPlatformID = 0\<rparr>
   \<and> filter is_FreeLibrary (os_calls (construct (ex_os (Some ex_block)) ex_ind (ex_storage 0)
      (FileDll (Some ''plain.dll'') TRUE))) = [Call_FreeLibrary 9]
   \<and> m_dvi (construct (ex_os (Some ex_block)) ex_ind (ex_storage 0)
      (FileDll (Some ''plain.dll'') TRUE)) = zero_DLLVERSIONINFO"
proof -
  let ?os = "ex_os (Some ex_block)"
  let ?a = "FileDll (Some ''app.exe'') TRUE" and ?b = "FileDll (Some ''plain.dll'') TRUE"
  have a: "os_LoadLibrary ?os (szFileName_of ?os (ex_storage 0) ?a) \<noteq> 0"
    and b: "os_LoadLibrary ?os (szFileName_of ?os (ex_storage 0) ?b) \<noteq> 0"
    by (simp_all add: ex_file_own ex_os_fields)
  have size: "os_GetFileVersionInfoSize ?os (szFileName_of ?os (ex_storage 0) ?a) \<noteq> 0"
    and load: "os_GetFileVersionInfo ?os (szFileName_of ?os (ex_storage 0) ?a)
       (os_GetFileVersionInfoSize ?os (szFileName_of ?os (ex_storage 0) ?a)) = Some ex_block"
    by (simp_all add: ex_file_own ex_os_fields)
  have info: "m_FixedFileInfo (construct ?os ex_ind (ex_storage 0) ?a) = ex_ffi"
    using construct_loaded_fixed(2) [OF size load, of ex_ind] by (simp add: ex_block_fields)
  from dll_version_without_export [OF TRUE_neq_FALSE a, of ex_ind]
  have t1: "filter is_FreeLibrary (os_calls (construct ?os ex_ind (ex_storage 0) ?a)) =
      [Call_FreeLibrary 7]
    \<and> last (os_calls (construct ?os ex_ind (ex_storage 0) ?a)) = Call_FreeLibrary 7
    \<and> m_dvi (construct ?os ex_ind (ex_storage 0) ?a) =
      \<lparr>cbSize = 0, dwMajorVersion = 1, dwMinorVersion = 2, dwBuildNumber = 3, dwPlatformID = 0\<rparr>"
    by (simp add: ex_file_own ex_os_fields info ex_dvi)
  note t = dll_version_without_export [OF TRUE_neq_FALSE b, of ex_ind]
  have none: "os_GetProcAddress ?os (os_LoadLibrary ?os (szFileName_of ?os (ex_storage 0) ?b))
      ''DllGetVersion'' = None"
    and absent: "os_GetFileVersionInfoSize ?os (szFileName_of ?os (ex_storage 0) ?b) = 0"
    by (simp_all add: ex_file_own ex_os_fields)
  from t none absent
  have zero: "m_dvi (construct ?os ex_ind (ex_storage 0) ?b) = zero_DLLVERSIONINFO"
    by blast
  from t have "filter is_FreeLibrary (os_calls (construct ?os ex_ind (ex_storage 0) ?b)) =
      [Call_FreeLibrary (os_LoadLibrary ?os (szFileName_of ?os (ex_storage 0) ?b))]"
    by blast
  with zero
  have t2: "filter is_FreeLibrary (os_calls (construct ?os ex_ind (ex_storage 0) ?b)) =
      [Call_FreeLibrary 9]
    \<and> m_dvi (construct ?os ex_ind (ex_storage 0) ?b) = zero_DLLVERSIONINFO"
    by (simp add: ex_file_own ex_os_fields)
  from t1 t2 show ?thesis by blast
qed

text \<open>
  C7 as stated fails for \<open>app.exe\<close>: the module loads and lacks the symbol,
  and the structure is not zero-valued.
\<close>

theorem dll_version_counterexample:
  "os_LoadLibrary (ex_os (Some ex_block))
      (szFileName_of (ex_os (Some ex_block)) (ex_storage 0) (FileDll (Some ''app.exe'') TRUE)) \<noteq> 0
   \<and> os_GetProcAddress (ex_os (Some ex_block)) 7 ''DllGetVersion'' = None
   \<and> m_dvi (construct (ex_os (Some ex_block)) ex_ind (ex_storage 0)
        (FileDll (Some ''app.exe'') TRUE)) =
       \<lparr>cbSize = 0, dwMajorVersion = 1, dwMinorVersion = 2, dwBuildNumber = 3, dwPlatformID = 0\<rparr>
   \<and> m_dvi (construct (ex_os (Some ex_block)) ex_ind (ex_storage 0)
        (FileDll (Some ''app.exe'') TRUE)) \<noteq> zero_DLLVERSIONINFO"
proof -
  let ?os = "ex_os (Some ex_block)"
  let ?a = "FileDll (Some ''app.exe'') TRUE"
  have a: "os_LoadLibrary ?os (szFileName_of ?os (ex_storage 0) ?a) \<noteq> 0"
    and none: "os_GetProcAddress ?os (os_LoadLibrary ?os (szFileName_of ?os (ex_storage 0) ?a))
       ''DllGetVersion'' = None"
    by (simp_all add: ex_file_own ex_os_fields)
  have size: "os_GetFileVersionInfoSize ?os (szFileName_of ?os (ex_storage 0) ?a) \<noteq> 0"
    and load: "os_GetFileVersionInfo ?os (szFileName_of ?os (ex_storage 0) ?a)
       (os_GetFileVersionInfoSize ?os (szFileName_of ?os (ex_storage 0) ?a)) = Some ex_block"
    by (simp_all add: ex_file_own ex_os_fields)
  have info: "m_FixedFileInfo (construct ?os ex_ind (ex_storage 0) ?a) = ex_ffi"
    using construct_loaded_fixed(2) [OF size load, of ex_ind] by (simp add: ex_block_fields)
  from construct_dll_no_export [OF TRUE_neq_FALSE a none, of ex_ind]
  have dvi: "m_dvi (construct ?os ex_ind (ex_storage 0) ?a) =
      \<lparr>cbSize = 0, dwMajorVersion = 1, dwMinorVersion = 2, dwBuildNumber = 3, dwPlatformID = 0\<rparr>"
    by (simp add: info ex_dvi)
  then have "m_dvi (construct ?os ex_ind (ex_storage 0) ?a) \<noteq> zero_DLLVERSIONINFO"
    by (simp add: zero_DLLVERSIONINFO_def)
  with a dvi show ?thesis
    by (simp add: ex_os_fields)
qed

section \<open>The found flag and the two references\<close>

text \<open>
  C10. For every object and all values of the two references,
  \<^verbatim>\<open>GetFixedFileVersion(versionMS, versionLS)\<close> returns \<^verbatim>\<open>TRUE\<close> with the two
  stored file-version words in the references when the found flag is set, and
  returns \<^verbatim>\<open>FALSE\<close> with both references unchanged when it is not.
\<close>

theorem GetFixedFileVersion_out_frame:
  "(m_bVersionFound this \<noteq> FALSE \<longrightarrow>
      GetFixedFileVersion_out this versionMS versionLS =
        (TRUE, dwFileVersionMS (m_FixedFileInfo this), dwFileVersionLS (m_FixedFileInfo this)))
   \<and> (m_bVersionFound this = FALSE \<longrightarrow>
      GetFixedFileVersion_out this versionMS versionLS = (FALSE, versionMS, versionLS))"
  by (simp add: GetFixedFileVersion_out_def FALSE_def)

text \<open>
  An instance of each case, the references holding 5 and 6 before the call.
\<close>

theorem GetFixedFileVersion_out_frame_witness:
  "m_bVersionFound ((ex_storage TRUE)\<lparr>m_FixedFileInfo := ex_ffi\<rparr>) \<noteq> FALSE
   \<and> GetFixedFileVersion_out ((ex_storage TRUE)\<lparr>m_FixedFileInfo := ex_ffi\<rparr>) 5 6 =
       (TRUE, 0x00010002, 0x00030004)
   \<and> m_bVersionFound ((ex_storage FALSE)\<lparr>m_FixedFileInfo := ex_ffi\<rparr>) = FALSE
   \<and> GetFixedFileVersion_out ((ex_storage FALSE)\<lparr>m_FixedFileInfo := ex_ffi\<rparr>) 5 6 =
       (FALSE, 5, 6)"
  using GetFixedFileVersion_out_frame [of "(ex_storage TRUE)\<lparr>m_FixedFileInfo := ex_ffi\<rparr>" 5 6]
    GetFixedFileVersion_out_frame [of "(ex_storage FALSE)\<lparr>m_FixedFileInfo := ex_ffi\<rparr>" 5 6]
  by (simp add: ex_storage_def ex_ffi_fields TRUE_neq_FALSE)

section \<open>The environment\<close>

text \<open>
  C8. For every backend, name and default value, \<^verbatim>\<open>get(name, defaultValue)\<close>
  returns the default, and does not fail, when \<^verbatim>\<open>has(name)\<close> is false, and
  returns what \<^verbatim>\<open>get(name)\<close> returns otherwise.
\<close>

theorem get_with_default:
  "(\<not> Environment_has impl name \<longrightarrow>
      Environment_get_default impl name defaultValue = Inr defaultValue)
   \<and> (Environment_has impl name \<longrightarrow>
      Environment_get_default impl name defaultValue = Environment_get impl name)"
  by (simp add: Environment_get_default_def)

text \<open>
  An instance of each case: a variable that is absent, for which the
  one-argument \<^verbatim>\<open>get\<close> fails, and one that is present.
\<close>

theorem get_with_default_witness:
  "\<not> Environment_has ex_env ''EDITOR''
   \<and> Environment_get ex_env ''EDITOR'' = Inl (NotFoundException ''EDITOR'')
   \<and> Environment_get_default ex_env ''EDITOR'' ''vi'' = Inr ''vi''
   \<and> Environment_has ex_env ''HOME''
   \<and> Environment_get_default ex_env ''HOME'' ''vi'' = Inr ''/root''"
  using get_with_default [of ex_env "''EDITOR''" "''vi''"]
    get_with_default [of ex_env "''HOME''" "''vi''"]
  by (simp add: Environment_has_def Environment_get_def ex_env_def)

lemma fmt_02x_byte:
  assumes "n < 256"
  shows "fmt_02x n = [digit_char False (n div 16), digit_char False (n mod 16)]"
proof (cases "n < 16")
  case True
  then show ?thesis
    by (simp add: fmt_02x_def zero_pad_def digits_of.simps [of 16 False n] digit_char_def)
next
  case False
  with assms have "n div 16 < 16" by simp
  then have "digits_of 16 False (n div 16) = [digit_char False (n div 16)]"
    by (simp add: digits_of.simps [of 16 False "n div 16"])
  with False show ?thesis
    by (simp add: fmt_02x_def zero_pad_def digits_of.simps [of 16 False n])
qed

lemma is_lower_hex_digit_char: "d < 16 \<Longrightarrow> is_lower_hex (digit_char False d)"
  using digit_cases [of d]
  by (auto simp: is_lower_hex_def digit_char_def)

lemma unat_BYTE_bound: "unat (b :: BYTE) < 256"
  using unsigned_less [of b, where ?'a = nat] by simp

lemma hex_pair_byte:
  fixes b :: BYTE
  shows "\<exists>h l. fmt_02x (unat b) = [h, l] \<and> is_lower_hex h \<and> is_lower_hex l
           \<and> numeral_value 16 [h, l] = unat b"
proof -
  have n: "unat b < 256" by (rule unat_BYTE_bound)
  then have d: "unat b div 16 < 16" "unat b mod 16 < 16" by simp_all
  have "numeral_value 16 [digit_char False (unat b div 16), digit_char False (unat b mod 16)] =
      unat b"
    using d by (simp add: numeral_value_def digit_value_digit_char)
  with fmt_02x_byte [OF n] is_lower_hex_digit_char [OF d(1)] is_lower_hex_digit_char [OF d(2)]
  show ?thesis by simp
qed

text \<open>
  C9. For every node identifier the backend returns, \<^verbatim>\<open>nodeId()\<close> returns a
  string of 17 characters (it fits the 18-character buffer) made of six pairs
  of lowercase hexadecimal digits joined by colons; pair \<open>i\<close> is the rendering
  of byte \<open>i\<close> by \<^verbatim>\<open>%02x\<close> and denotes the value of byte \<open>i\<close>.
\<close>

theorem nodeId_format:
  assumes "nodeIdImpl impl = Inr ident"
  shows "\<exists>s. Environment_nodeId impl = Inr s \<and> length s = 17 \<and> colon_hex_pairs 6 s
     \<and> map (\<lambda>i. fmt_02x (unat (node_bytes ident ! i))) [0, 1, 2, 3, 4, 5] =
         map (pair_at s) [0, 1, 2, 3, 4, 5]
     \<and> map (\<lambda>i. numeral_value 16 (pair_at s i)) [0, 1, 2, 3, 4, 5] =
         map unat (node_bytes ident)"
proof -
  obtain a b c d e f where ident: "ident = NodeId a b c d e f"
    by (cases ident)
  from hex_pair_byte [of a] obtain a1 a2 where a: "fmt_02x (unat a) = [a1, a2]"
    "is_lower_hex a1" "is_lower_hex a2" "numeral_value 16 [a1, a2] = unat a" by blast
  from hex_pair_byte [of b] obtain b1 b2 where b: "fmt_02x (unat b) = [b1, b2]"
    "is_lower_hex b1" "is_lower_hex b2" "numeral_value 16 [b1, b2] = unat b" by blast
  from hex_pair_byte [of c] obtain c1 c2 where c: "fmt_02x (unat c) = [c1, c2]"
    "is_lower_hex c1" "is_lower_hex c2" "numeral_value 16 [c1, c2] = unat c" by blast
  from hex_pair_byte [of d] obtain d1 d2 where d: "fmt_02x (unat d) = [d1, d2]"
    "is_lower_hex d1" "is_lower_hex d2" "numeral_value 16 [d1, d2] = unat d" by blast
  from hex_pair_byte [of e] obtain e1 e2 where e: "fmt_02x (unat e) = [e1, e2]"
    "is_lower_hex e1" "is_lower_hex e2" "numeral_value 16 [e1, e2] = unat e" by blast
  from hex_pair_byte [of f] obtain f1 f2 where f: "fmt_02x (unat f) = [f1, f2]"
    "is_lower_hex f1" "is_lower_hex f2" "numeral_value 16 [f1, f2] = unat f" by blast
  let ?s = "[a1, a2, CHR '':'', b1, b2, CHR '':'', c1, c2, CHR '':'', d1, d2, CHR '':'',
             e1, e2, CHR '':'', f1, f2]"
  have r: "Environment_nodeId impl = Inr ?s"
    using assms
    by (simp add: Environment_nodeId_def Environment_nodeId_out_def sprintf_s_def ident
        a(1) b(1) c(1) d(1) e(1) f(1))
  have p: "colon_hex_pairs 6 ?s"
    using a(2,3) b(2,3) c(2,3) d(2,3) e(2,3) f(2,3) by (simp add: numeral_eq_Suc)
  have q: "map (\<lambda>i. fmt_02x (unat (node_bytes ident ! i))) [0, 1, 2, 3, 4, 5] =
         map (pair_at ?s) [0, 1, 2, 3, 4, 5]"
    by (simp add: ident pair_at_def a(1) b(1) c(1) d(1) e(1) f(1))
  have v: "map (\<lambda>i. numeral_value 16 (pair_at ?s i)) [0, 1, 2, 3, 4, 5] =
         map unat (node_bytes ident)"
    by (simp add: ident pair_at_def a(4) b(4) c(4) d(4) e(4) f(4))
  from r p q v show ?thesis
    by (intro exI [of _ ?s]) simp
qed

text \<open>
  An instance: the identifier 00 1a 2b 3c 4d 5e.
\<close>

theorem nodeId_format_witness:
  "nodeIdImpl ex_env = Inr (NodeId 0x00 0x1a 0x2b 0x3c 0x4d 0x5e)
   \<and> Environment_nodeId ex_env = Inr ''00:1a:2b:3c:4d:5e''
   \<and> colon_hex_pairs 6 ''00:1a:2b:3c:4d:5e''"
proof -
  have i: "nodeIdImpl ex_env = Inr (NodeId 0x00 0x1a 0x2b 0x3c 0x4d 0x5e)"
    by (simp add: ex_env_def)
  from nodeId_format [OF i] obtain s where s: "Environment_nodeId ex_env = Inr s"
    "colon_hex_pairs 6 s" by blast
  have "Environment_nodeId ex_env = Inr ''00:1a:2b:3c:4d:5e''"
    by (simp add: Environment_nodeId_def Environment_nodeId_out_def sprintf_s_def ex_env_def
        fmt_02x_def zero_pad_def digits_of.simps digit_char_def)
  with i s show ?thesis by simp
qed

end
